theory Spec2Isabelle
  imports Main
begin

text \<open>
  The persist middleware of the store (\<^verbatim>\<open>src/middleware/persist.ts\<close>, and the \<^verbatim>\<open>update\<close>
  of its context-store variant): the thenable adapter \<^verbatim>\<open>thenablify\<close>, the write to the
  storage after every \<^verbatim>\<open>setState\<close>, the hydration pass \<^verbatim>\<open>hydrate\<close> with its version
  resolution, and the \<^verbatim>\<open>persist\<close> namespace. Closures over the variables of \<^verbatim>\<open>persistImpl\<close>
  are functions on a record of those variables; a call returns the thrown or returned
  value together with the new record.
\<close>

section \<open>JavaScript values\<close>

text \<open>
  The values the persist middleware handles.
  Objects are association lists of their own enumerable properties, in insertion order.
  \<open>ErrV\<close> is an error object raised by the runtime (a \<^verbatim>\<open>TypeError\<close>).
  \<open>Fulfilled\<close> and \<open>Rejected\<close> are the two object literals \<^verbatim>\<open>thenablify\<close> returns
  (its \<^verbatim>\<open>try\<close> branch and its \<^verbatim>\<open>catch\<close> branch), each with the \<^verbatim>\<open>throwImmediately\<close>
  flag and the value its closure captured. \<open>PromiseV\<close> is a native promise, still pending.
  Numbers are integers (version numbers); function values are not part of \<open>val\<close>: the
  functions the middleware receives are HOL functions, see below.
\<close>

datatype val =
    Undefined
  | Null
  | BoolV bool
  | NumV int
  | StrV string
  | ObjV "(string \<times> val) list"
  | ErrV string
  | Fulfilled bool val
  | Rejected bool val
  | PromiseV

text \<open>
  A call either throws a value (\<open>Inl\<close>) or returns one (\<open>Inr\<close>), and changes the state
  it runs in.
\<close>

type_synonym ('a, 's) call = "'s \<Rightarrow> (val + 'a) \<times> 's"

text \<open>Property read \<^verbatim>\<open>t.k\<close>: a \<^verbatim>\<open>TypeError\<close> on \<^verbatim>\<open>undefined\<close> and \<^verbatim>\<open>null\<close>,
  \<^verbatim>\<open>undefined\<close> for a missing property. The middleware reads \<^verbatim>\<open>version\<close> and
  \<^verbatim>\<open>state\<close> only, which no primitive has.\<close>

fun getProp :: "val \<Rightarrow> string \<Rightarrow> val + val" where
  "getProp Undefined k = Inl (ErrV ''TypeError: cannot read properties of undefined'')"
| "getProp Null k = Inl (ErrV ''TypeError: cannot read properties of null'')"
| "getProp (ObjV kvs) k = Inr (case map_of kvs k of None \<Rightarrow> Undefined | Some v \<Rightarrow> v)"
| "getProp v k = Inr Undefined"

text \<open>\<^verbatim>\<open>a === b\<close> on the values compared in the middleware: primitives by value; two
  objects are never the same reference here (one comes out of \<^verbatim>\<open>deserialize\<close>, the
  other out of the options).\<close>

fun strictEq :: "val \<Rightarrow> val \<Rightarrow> bool" where
  "strictEq Undefined Undefined = True"
| "strictEq Null Null = True"
| "strictEq (BoolV a) (BoolV b) = (a = b)"
| "strictEq (NumV a) (NumV b) = (a = b)"
| "strictEq (StrV a) (StrV b) = (a = b)"
| "strictEq a b = False"

text \<open>JavaScript truthiness, for \<^verbatim>\<open>a || b\<close>.\<close>

fun truthy :: "val \<Rightarrow> bool" where
  "truthy Undefined = False"
| "truthy Null = False"
| "truthy (BoolV b) = b"
| "truthy (NumV n) = (n \<noteq> 0)"
| "truthy (StrV s) = (s \<noteq> [])"
| "truthy v = True"

function decimal :: "nat \<Rightarrow> string" where
  "decimal n = (if n < 10 then [char_of (48 + n)] else decimal (n div 10) @ [char_of (48 + n mod 10)])"
  by pat_completeness auto
termination
  by (relation "measure id") auto

text \<open>Object spread \<^verbatim>\<open>{ ...v }\<close>: the own enumerable properties of \<open>v\<close>. A string
  spreads into its characters under their indices; \<^verbatim>\<open>undefined\<close>, \<^verbatim>\<open>null\<close>, numbers,
  booleans, errors and promises have none. (The two thenable object literals carry their
  methods as properties; the state type \<^verbatim>\<open>UnknownState\<close> excludes them, and they are
  spread as empty here.)\<close>

fun spread :: "val \<Rightarrow> (string \<times> val) list" where
  "spread (ObjV kvs) = kvs"
| "spread (StrV s) = zip (map decimal [0..<length s]) (map (\<lambda>c. StrV [c]) s)"
| "spread v = []"

text \<open>Property assignment \<^verbatim>\<open>o[k] = v\<close> on an object literal, and \<^verbatim>\<open>{ ...a, ...b }\<close>:
  the keys of \<open>a\<close> keep their places, new keys of \<open>b\<close> follow.\<close>

fun setProp :: "string \<Rightarrow> val \<Rightarrow> (string \<times> val) list \<Rightarrow> (string \<times> val) list" where
  "setProp k v [] = [(k, v)]"
| "setProp k v ((k', v') # kvs) = (if k = k' then (k, v) # kvs else (k', v') # setProp k v kvs)"

definition assign :: "(string \<times> val) list \<Rightarrow> (string \<times> val) list \<Rightarrow> (string \<times> val) list" where
  "assign target source = fold (\<lambda>(k, v). setProp k v) source target"

section \<open>Utilities of the middleware\<close>

text \<open>\<^verbatim>\<open>hasThen\<close>: an object, not \<^verbatim>\<open>null\<close>, whose \<^verbatim>\<open>then\<close> is not \<^verbatim>\<open>undefined\<close>.\<close>

fun hasThen :: "val \<Rightarrow> bool" where
  "hasThen (ObjV kvs) = (case map_of kvs ''then'' of None \<Rightarrow> False | Some v \<Rightarrow> v \<noteq> Undefined)"
| "hasThen (Fulfilled ti r) = True"
| "hasThen (Rejected ti e) = True"
| "hasThen PromiseV = True"
| "hasThen v = False"

text \<open>\<^verbatim>\<open>thenablify(f, throwImmediately)(a)\<close>: runs \<open>f\<close> at once. A promise-like result is
  returned as it is; any other result is wrapped; a throw is rethrown in throw-immediately
  mode and wrapped otherwise.\<close>

definition thenablify :: "(val \<Rightarrow> (val, 's) call) \<Rightarrow> bool \<Rightarrow> val \<Rightarrow> (val, 's) call" where
  "thenablify f throwImmediately a s =
     (case f a s of
        (Inr r, s') \<Rightarrow> if hasThen r then (Inr r, s') else (Inr (Fulfilled throwImmediately r), s')
      | (Inl error, s') \<Rightarrow>
          if throwImmediately then (Inl error, s') else (Inr (Rejected throwImmediately error), s'))"

text \<open>\<^verbatim>\<open>tryElse(result, fallback)\<close>.\<close>

definition tryElse :: "('a, 's) call \<Rightarrow> (val \<Rightarrow> ('a, 's) call) \<Rightarrow> ('a, 's) call" where
  "tryElse result fallback s =
     (case result s of (Inr r, s') \<Rightarrow> (Inr r, s') | (Inl e, s') \<Rightarrow> fallback e s')"

text \<open>\<^verbatim>\<open>update(t, k, replacer)\<close> of \<^verbatim>\<open>src/middleware/persist.ts\<close>: an object is read as
  the function from property names to values (\<open>None\<close> for \<^verbatim>\<open>undefined\<close>), and
  \<^verbatim>\<open>Object.assign(t, { [k]: replacer(original) })\<close> writes the property \<open>k\<close>.\<close>

definition update :: "(string \<Rightarrow> 'a option) \<Rightarrow> string \<Rightarrow> ('a option \<Rightarrow> 'a option) \<Rightarrow> string \<Rightarrow> 'a option" where
  "update t k replacer = (let original = t k in t(k := replacer original))"

text \<open>\<^verbatim>\<open>update\<close> of the context-store variant (\<^verbatim>\<open>src/unnamed/part_000\<close>):
  \<^verbatim>\<open>Object.assign(t, { k: replacer(original) })\<close> writes the property named \<^verbatim>\<open>k\<close>.\<close>

definition update_context :: "(string \<Rightarrow> 'a option) \<Rightarrow> string \<Rightarrow> ('a option \<Rightarrow> 'a option) \<Rightarrow> string \<Rightarrow> 'a option" where
  "update_context t k replacer = (let original = t k in t(''k'' := replacer original))"

section \<open>Options, storage and the state of one persisted store\<close>

text \<open>
  The functions a caller hands to the middleware (the storage's methods, the options'
  functions, the listeners, the post-hydration callback) run in the caller's own
  environment \<open>'u\<close>, which holds whatever they read and write: the storage's contents
  above all. They may throw, and they may return anything, a promise too. They do not
  call back into the store.
\<close>

type_synonym 'u userfn = "val \<Rightarrow> (val, 'u) call"

type_synonym 'u callback = "val \<Rightarrow> val \<Rightarrow> (val, 'u) call"

record 'u PersistentStorage =
  getItem :: "string \<Rightarrow> (val, 'u) call"
  setItem :: "string \<Rightarrow> val \<Rightarrow> (val, 'u) call"
  removeItem :: "string \<Rightarrow> (val, 'u) call"

text \<open>The \<^verbatim>\<open>options\<close> variable of \<^verbatim>\<open>persistImpl\<close>: \<^verbatim>\<open>EPersistOptions\<close> over the defaults.
  \<open>None\<close> is an absent (or \<^verbatim>\<open>undefined\<close>) function; a provider that returns \<open>None\<close>
  returned no handle.\<close>

record 'u PersistOptions =
  name :: string
  getStorage :: "('u PersistentStorage option, 'u) call option"
  serialize :: "'u userfn"
  deserialize :: "'u userfn"
  partialize :: "'u userfn"
  onRehydrateStorage :: "(val \<Rightarrow> ('u callback option, 'u) call) option"
  version :: val
  migrate :: "(val \<Rightarrow> val \<Rightarrow> (val, 'u) call) option"
  merge :: "val \<Rightarrow> val \<Rightarrow> (val, 'u) call"

text \<open>An options object literal, \<^verbatim>\<open>Partial<EPersistOptions>\<close>: the properties it sets.\<close>

datatype 'u PersistOption =
    OptName string
  | OptGetStorage "('u PersistentStorage option, 'u) call"
  | OptSerialize "'u userfn"
  | OptDeserialize "'u userfn"
  | OptPartialize "'u userfn"
  | OptOnRehydrateStorage "val \<Rightarrow> ('u callback option, 'u) call"
  | OptVersion val
  | OptMigrate "val \<Rightarrow> val \<Rightarrow> (val, 'u) call"
  | OptMerge "val \<Rightarrow> val \<Rightarrow> (val, 'u) call"

fun setOption :: "'u PersistOption \<Rightarrow> 'u PersistOptions \<Rightarrow> 'u PersistOptions" where
  "setOption (OptName n) opts = opts\<lparr>name := n\<rparr>"
| "setOption (OptGetStorage g) opts = opts\<lparr>getStorage := Some g\<rparr>"
| "setOption (OptSerialize f) opts = opts\<lparr>serialize := f\<rparr>"
| "setOption (OptDeserialize f) opts = opts\<lparr>deserialize := f\<rparr>"
| "setOption (OptPartialize f) opts = opts\<lparr>partialize := f\<rparr>"
| "setOption (OptOnRehydrateStorage f) opts = opts\<lparr>onRehydrateStorage := Some f\<rparr>"
| "setOption (OptVersion v) opts = opts\<lparr>version := v\<rparr>"
| "setOption (OptMigrate f) opts = opts\<lparr>migrate := Some f\<rparr>"
| "setOption (OptMerge f) opts = opts\<lparr>merge := f\<rparr>"

text \<open>\<^verbatim>\<open>{ ...options, ...newOptions }\<close>.\<close>

definition spreadOptions :: "'u PersistOptions \<Rightarrow> 'u PersistOption list \<Rightarrow> 'u PersistOptions" where
  "spreadOptions opts newOptions = fold setOption newOptions opts"

text \<open>\<^verbatim>\<open>defaultOptions\<close>. The platform's \<^verbatim>\<open>localStorage\<close>, \<^verbatim>\<open>JSON.stringify\<close> (on
  an envelope: a string, no throw) and \<^verbatim>\<open>JSON.parse\<close> (a value or a \<^verbatim>\<open>SyntaxError\<close>)
  are parameters. The defaults have no \<^verbatim>\<open>name\<close>: the caller's options give it.\<close>

definition defaultMerge :: "val \<Rightarrow> val \<Rightarrow> (val, 'u) call" where
  "defaultMerge persistedState currentState u =
     (Inr (ObjV (assign (spread currentState) (spread persistedState))), u)"

definition defaultOptions ::
  "('u PersistentStorage option, 'u) call \<Rightarrow> (val \<Rightarrow> string) \<Rightarrow> (val \<Rightarrow> val + val) \<Rightarrow>
   'u PersistOptions" where
  "defaultOptions localStorage stringify parse =
     \<lparr> name = ''undefined'',
       getStorage = Some localStorage,
       serialize = (\<lambda>v u. (Inr (StrV (stringify v)), u)),
       deserialize = (\<lambda>v u. (parse v, u)),
       partialize = (\<lambda>x u. (Inr x, u)),
       onRehydrateStorage = None,
       version = NumV 0,
       migrate = None,
       merge = defaultMerge \<rparr>"

datatype diagnostic = Warn string | Error string

definition noPersistentStorage :: "string \<Rightarrow> string" where
  "noPersistentStorage n =
     ''[zustand persist middleware] Unable to update item '' @ [CHR 0x27] @ n @ [CHR 0x27] @
     '', the given storage is currently unavailable.''"

definition couldNotMigrate :: string where
  "couldNotMigrate =
     ''[zustand persist middleware] State loaded from storage couldn'' @ [CHR 0x27] @
     ''t be migrated since no migrate function was provided''"

text \<open>
  The variables the closures of \<^verbatim>\<open>persistImpl\<close> share, with the parent store's current
  state (\<open>mem\<close>), the console and the caller's environment. Two fields are bookkeeping
  and not variables of the source: \<open>flagLog\<close> lists the assignments to \<^verbatim>\<open>hasHydrated\<close>
  in order, and \<open>deferred\<close> counts the handlers given to a native promise's own
  \<^verbatim>\<open>then\<close>/\<^verbatim>\<open>catch\<close>, which run later if at all.
\<close>

record 'u middleware =
  options :: "'u PersistOptions"
  persistentStorage :: "'u PersistentStorage option"
  initialState :: val
  initialStateFromPersistentStorage :: val
  hasHydrated :: bool
  hydrationListeners :: "'u userfn list"
  finishHydrationListeners :: "'u userfn list"
  mem :: val
  console :: "diagnostic list"
  flagLog :: "bool list"
  deferred :: nat
  env :: "'u"

type_synonym 'u handler = "val \<Rightarrow> (val, 'u middleware) call"

type_synonym 'u setter = "val \<Rightarrow> bool \<Rightarrow> (val, 'u middleware) call"

text \<open>A caller's function, run from the middleware.\<close>

definition user :: "('a, 'u) call \<Rightarrow> ('a, 'u middleware) call" where
  "user f s = (case f (env s) of (r, u) \<Rightarrow> (r, s\<lparr>env := u\<rparr>))"

definition setHasHydrated :: "bool \<Rightarrow> 'u middleware \<Rightarrow> 'u middleware" where
  "setHasHydrated b s = s\<lparr>hasHydrated := b, flagLog := flagLog s @ [b]\<rparr>"

definition consoleWarn :: "string \<Rightarrow> 'u middleware \<Rightarrow> 'u middleware" where
  "consoleWarn m s = s\<lparr>console := console s @ [Warn m]\<rparr>"

definition consoleError :: "string \<Rightarrow> 'u middleware \<Rightarrow> 'u middleware" where
  "consoleError m s = s\<lparr>console := console s @ [Error m]\<rparr>"

text \<open>Modelled from the spec: the Store Engine's \<^verbatim>\<open>getState\<close> and \<^verbatim>\<open>setState\<close> (section
  4.1; \<^verbatim>\<open>../vanilla\<close> is not among the sources), which the middleware receives as
  \<^verbatim>\<open>parentGet\<close> and \<^verbatim>\<open>parentSet\<close>: a replace makes the value the whole state, otherwise
  the value is shallow-merged onto the previous state. The store has no subscribers.\<close>

definition parentGet :: "'u middleware \<Rightarrow> val" where
  "parentGet s = mem s"

definition parentSet :: "'u setter" where
  "parentSet partial replace s =
     (Inr Undefined,
      s\<lparr>mem := (if replace then partial else ObjV (assign (spread (mem s)) (spread partial)))\<rparr>)"

text \<open>\<^verbatim>\<open>emitter(listeners).emit(a)\<close>: the listeners in insertion order; a throw ends the
  \<^verbatim>\<open>forEach\<close>.\<close>

fun emit :: "'u userfn list \<Rightarrow> val \<Rightarrow> (val, 'u middleware) call" where
  "emit [] a s = (Inr Undefined, s)"
| "emit (f # fs) a s =
     (case user (f a) s of (Inl e, s') \<Rightarrow> (Inl e, s') | (Inr _, s') \<Rightarrow> emit fs a s')"

section \<open>Chaining\<close>

text \<open>The method calls \<^verbatim>\<open>t.then(f)\<close> and \<^verbatim>\<open>t.catch(f)\<close>, by what \<open>t\<close> is: one of the two
  object literals of \<^verbatim>\<open>thenablify\<close>; a native promise, whose own chaining takes the
  handler and runs it later; or a value with no such method, a \<^verbatim>\<open>TypeError\<close>.\<close>

fun then_method :: "val \<Rightarrow> 'u handler \<Rightarrow> (val, 'u middleware) call" where
  "then_method (Fulfilled throwImmediately r) f s = thenablify f throwImmediately r s"
| "then_method (Rejected throwImmediately error) f s = (Inr (Rejected throwImmediately error), s)"
| "then_method PromiseV f s = (Inr PromiseV, s\<lparr>deferred := Suc (deferred s)\<rparr>)"
| "then_method t f s = (Inl (ErrV ''TypeError: then is not a function''), s)"

fun catch_method :: "val \<Rightarrow> 'u handler \<Rightarrow> (val, 'u middleware) call" where
  "catch_method (Fulfilled throwImmediately r) f s = (Inr (Fulfilled throwImmediately r), s)"
| "catch_method (Rejected throwImmediately error) f s = thenablify f throwImmediately error s"
| "catch_method PromiseV f s = (Inr PromiseV, s\<lparr>deferred := Suc (deferred s)\<rparr>)"
| "catch_method t f s = (Inl (ErrV ''TypeError: catch is not a function''), s)"

datatype 'u stage = Then "'u handler" | Catch "'u handler"

text \<open>A method chain \<^verbatim>\<open>t.then(f).then(g).catch(h)\<close>, left to right; a method call that
  throws ends the expression.\<close>

fun chain :: "(val + val) \<times> 'u middleware \<Rightarrow> 'u stage list \<Rightarrow> (val + val) \<times> 'u middleware" where
  "chain (Inl e, s) stages = (Inl e, s)"
| "chain (Inr t, s) [] = (Inr t, s)"
| "chain (Inr t, s) (Then f # stages) = chain (then_method t f s) stages"
| "chain (Inr t, s) (Catch f # stages) = chain (catch_method t f s) stages"

section \<open>The persist middleware\<close>

text \<open>Sequencing of two calls: a throw of the first ends both.\<close>

definition andThen :: "('a, 's) call \<Rightarrow> ('a \<Rightarrow> ('b, 's) call) \<Rightarrow> ('b, 's) call" where
  "andThen m f s = (case m s of (Inl e, s') \<Rightarrow> (Inl e, s') | (Inr a, s') \<Rightarrow> f a s')"

definition throw :: "val \<Rightarrow> ('a, 's) call" where
  "throw e s = (Inl e, s)"

definition return :: "'a \<Rightarrow> ('a, 's) call" where
  "return a s = (Inr a, s)"

text \<open>\<^verbatim>\<open>persistentStorage!.getItem(options.name)\<close> and its two siblings: the method call
  on an absent handle is a \<^verbatim>\<open>TypeError\<close>.\<close>

definition persistentStorageGetItem :: "'u handler" where
  "persistentStorageGetItem a s =
     (case persistentStorage s of
        None \<Rightarrow> throw (ErrV ''TypeError: cannot read properties of undefined'') s
      | Some h \<Rightarrow> user (getItem h (name (options s))) s)"

definition persistentStorageSetItem :: "'u handler" where
  "persistentStorageSetItem serializedState s =
     (case persistentStorage s of
        None \<Rightarrow> throw (ErrV ''TypeError: cannot read properties of undefined'') s
      | Some h \<Rightarrow> user (setItem h (name (options s)) serializedState) s)"

definition persistentStorageRemoveItem :: "'u handler" where
  "persistentStorageRemoveItem a s =
     (case persistentStorage s of
        None \<Rightarrow> throw (ErrV ''TypeError: cannot read properties of undefined'') s
      | Some h \<Rightarrow> user (removeItem h (name (options s))) s)"

text \<open>The envelope \<^verbatim>\<open>{ state: ..., version: options.version }\<close>.\<close>

definition envelope :: "val \<Rightarrow> val \<Rightarrow> val" where
  "envelope st v = ObjV [(''state'', st), (''version'', v)]"

text \<open>\<^verbatim>\<open>updatePersistentStorage\<close>: \<^verbatim>\<open>partialize\<close> runs while the argument is built, outside
  the adapter; \<^verbatim>\<open>serialize\<close> and the storage write run in throw-immediately mode.\<close>

definition updatePersistentStorage :: "(val, 'u middleware) call" where
  "updatePersistentStorage s =
     andThen (user (partialize (options s) (ObjV (spread (parentGet s)))))
       (\<lambda>selected s1.
          chain (thenablify (\<lambda>v. user (serialize (options s1) v)) True
                   (envelope selected (version (options s1))) s1)
            [Then persistentStorageSetItem]) s"

text \<open>The two replacers handed to \<^verbatim>\<open>update(parentStore, 'setState', ...)\<close> (the first
  arguments handed to the initializer are the same closures over \<^verbatim>\<open>parentSet\<close>).\<close>

definition warnSet :: "'u setter \<Rightarrow> 'u setter" where
  "warnSet setState a replace s =
     andThen (setState a replace) (\<lambda>_. return Undefined)
       (consoleWarn (noPersistentStorage (name (options s))) s)"

definition persistSet :: "'u setter \<Rightarrow> 'u setter" where
  "persistSet setState a replace =
     andThen (setState a replace) (\<lambda>_. andThen updatePersistentStorage (\<lambda>_. return Undefined))"

text \<open>The handlers of the hydration chain, in the order \<^verbatim>\<open>hydrate\<close> chains them.\<close>

definition deserializeStage :: "'u handler" where
  "deserializeStage serialized s =
     (if serialized \<noteq> Null then user (deserialize (options s) serialized) s else return Null s)"

definition versionStage :: "'u handler" where
  "versionStage storageValue s =
     (if storageValue = Null then return storageValue s
      else case getProp storageValue ''version'' of
        Inl e \<Rightarrow> throw e s
      | Inr v \<Rightarrow>
          (case getProp storageValue ''state'' of
             Inl e \<Rightarrow> throw e s
           | Inr st \<Rightarrow>
               if v = Undefined then return st s
               else if strictEq v (version (options s)) then return st s
               else case migrate (options s) of
                      None \<Rightarrow> return Undefined (consoleError couldNotMigrate s)
                    | Some m \<Rightarrow> user (m st v) s))"

definition mergeStage :: "'u handler" where
  "mergeStage migratedState s =
     andThen (user (merge (options s) migratedState (initialState s)))
       (\<lambda>merged s1.
          andThen (parentSet merged True) (\<lambda>_. updatePersistentStorage)
            (s1\<lparr>initialStateFromPersistentStorage := merged\<rparr>)) s"

definition postRehydration :: "'u callback option \<Rightarrow> val \<Rightarrow> val \<Rightarrow> (val, 'u middleware) call" where
  "postRehydration cb st err =
     (case cb of None \<Rightarrow> return Undefined | Some c \<Rightarrow> user (c st err))"

definition finishStage :: "'u callback option \<Rightarrow> 'u handler" where
  "finishStage postRehydrationCallback a s =
     andThen (postRehydration postRehydrationCallback (initialStateFromPersistentStorage s) Undefined)
       (\<lambda>_ s1.
          andThen (emit (finishHydrationListeners s1) (initialStateFromPersistentStorage s1))
            (\<lambda>_. return Undefined) (setHasHydrated True s1)) s"

definition failStage :: "'u callback option \<Rightarrow> 'u handler" where
  "failStage postRehydrationCallback error = postRehydration postRehydrationCallback Undefined error"

text \<open>The first statements of \<^verbatim>\<open>hydrate\<close>, before the chain: the flag is reset, the
  pre-hydration listeners run, \<^verbatim>\<open>onRehydrateStorage\<close> gives the callback.\<close>

definition beginHydration :: "('u callback option, 'u middleware) call" where
  "beginHydration s =
     (let s1 = setHasHydrated False s in
      andThen (emit (hydrationListeners s1) (parentGet s1))
        (\<lambda>_ s2. case onRehydrateStorage (options s2) of
                   None \<Rightarrow> return None s2
                 | Some f \<Rightarrow> user (f (parentGet s2)) s2) s1)"

definition hydrationChain :: "'u callback option \<Rightarrow> 'u stage list" where
  "hydrationChain cb =
     [Then deserializeStage, Then versionStage, Then mergeStage, Then (finishStage cb),
      Catch (failStage cb)]"

definition hydrate :: "(val, 'u middleware) call" where
  "hydrate s =
     andThen beginHydration
       (\<lambda>cb s1. chain (thenablify persistentStorageGetItem False Undefined s1) (hydrationChain cb)) s"

text \<open>The \<^verbatim>\<open>persist\<close> namespace: \<^verbatim>\<open>rehydrate\<close> is \<open>hydrate\<close>, \<^verbatim>\<open>clearStorage\<close> is
  \<open>persistentStorageRemoveItem\<close>, \<^verbatim>\<open>hasHydrated\<close> reads the flag.\<close>

definition setOptions :: "'u PersistOption list \<Rightarrow> (val, 'u middleware) call" where
  "setOptions newOptions s =
     (let s1 = s\<lparr>options := spreadOptions (options s) newOptions\<rparr> in
      case getStorage (options s1) of
        None \<Rightarrow> return Undefined s1
      | Some g \<Rightarrow> andThen (user g) (\<lambda>h s2. return Undefined (s2\<lparr>persistentStorage := h\<rparr>)) s1)"

text \<open>Calling a property that may hold no function.\<close>

definition callSetter :: "'u setter option \<Rightarrow> 'u setter" where
  "callSetter f a replace =
     (case f of None \<Rightarrow> throw (ErrV ''TypeError: setState is not a function'') | Some g \<Rightarrow> g a replace)"

text \<open>
  \<^verbatim>\<open>persistImpl(storeInitializer, _options)(parentSet, parentGet, parentStore)\<close>. The
  store initializer is the caller's: it returns the initial state (or throws) and keeps
  the \<^verbatim>\<open>set\<close> and the store handle it is given for later, so the model returns both with
  the initializer's result: what \<^verbatim>\<open>persistImpl\<close> returns, then the \<^verbatim>\<open>set\<close> it handed
  over and the store handle as a function from property names to the setters they hold.
  A throw that leaves \<^verbatim>\<open>persistImpl\<close> before the initializer is called hands nothing
  over (\<open>None\<close>). \<open>defaults\<close> is \<^verbatim>\<open>defaultOptions\<close>.
\<close>

type_synonym 'u wiring = "'u setter \<times> (string \<Rightarrow> 'u setter option)"

definition warnWiring :: "(string \<Rightarrow> 'u setter option) \<Rightarrow> 'u wiring" where
  "warnWiring parentStore =
     (warnSet parentSet,
      update parentStore ''setState'' (\<lambda>setState. Some (warnSet (callSetter setState))))"

definition persistWiring :: "(string \<Rightarrow> 'u setter option) \<Rightarrow> 'u wiring" where
  "persistWiring parentStore =
     (persistSet parentSet,
      update parentStore ''setState'' (\<lambda>setState. Some (persistSet (callSetter setState))))"

definition persistImpl ::
  "'u PersistOptions \<Rightarrow> (val, 'u) call \<Rightarrow> 'u PersistOption list \<Rightarrow> (string \<Rightarrow> 'u setter option) \<Rightarrow>
   'u middleware \<Rightarrow> (val + val) \<times> 'u wiring option \<times> 'u middleware" where
  "persistImpl defaults storeInitializer opts parentStore s =
     (let s0 = s\<lparr>options := spreadOptions defaults opts\<rparr> in
      case tryElse
             (case getStorage (options s0) of
                None \<Rightarrow> throw (ErrV ''TypeError: getStorage is not a function'')
              | Some g \<Rightarrow> user g)
             (\<lambda>e. return None) s0 of
        (Inl e, s1) \<Rightarrow> (Inl e, None, s1)
      | (Inr handle, s1) \<Rightarrow>
          (let s2 = s1\<lparr>persistentStorage := handle\<rparr> in
           if persistentStorage s2 = None then
             (case user storeInitializer s2 of (r, s3) \<Rightarrow> (r, Some (warnWiring parentStore), s3))
           else
             (case user storeInitializer s2 of
                (Inl e, s3) \<Rightarrow> (Inl e, Some (persistWiring parentStore), s3)
              | (Inr initial, s3) \<Rightarrow>
                  (case hydrate (s3\<lparr>initialState := initial,
                                    initialStateFromPersistentStorage := Undefined,
                                    hasHydrated := False, hydrationListeners := [],
                                    finishHydrationListeners := []\<rparr>) of
                     (Inl e, s4) \<Rightarrow> (Inl e, Some (persistWiring parentStore), s4)
                   | (Inr x, s4) \<Rightarrow>
                       (Inr (if truthy (initialStateFromPersistentStorage s4)
                             then initialStateFromPersistentStorage s4 else initialState s4),
                        Some (persistWiring parentStore), s4)))))"



section \<open>Synchronous collaborators\<close>







section \<open>A worked store\<close>

text \<open>An environment for concrete runs: the entries of a key-value storage, the
  invocations of the post-hydration callback, and how often the storage provider ran.
  The storage answers at once: it has no entry that is a thenable to give.\<close>

record world =
  items :: "(string \<times> val) list"
  calls :: "(val \<times> val) list"
  resolutions :: nat

definition memoryStorage :: "world PersistentStorage" where
  "memoryStorage =
     \<lparr> getItem = (\<lambda>k u. (Inr (case map_of (items u) k of
                                   None \<Rightarrow> Null
                                 | Some v \<Rightarrow> if hasThen v then Null else v), u)),
       setItem = (\<lambda>k v u. (Inr Undefined, u\<lparr>items := setProp k v (items u)\<rparr>)),
       removeItem = (\<lambda>k u. (Inr Undefined, u\<lparr>items := filter (\<lambda>kv. fst kv \<noteq> k) (items u)\<rparr>)) \<rparr>"

text \<open>A provider that hands out the storage on its first run only.\<close>

definition memoryStorageOnce :: "(world PersistentStorage option, world) call" where
  "memoryStorageOnce u =
     (Inr (if resolutions u = 0 then Some memoryStorage else None),
      u\<lparr>resolutions := Suc (resolutions u)\<rparr>)"

definition recordCall :: "world callback" where
  "recordCall st err u = (Inr Undefined, u\<lparr>calls := calls u @ [(st, err)]\<rparr>)"

definition emptyWorld :: world where
  "emptyWorld = \<lparr> items = [], calls = [], resolutions = 0 \<rparr>"

text \<open>The defaults of the worked store, and the options its caller gives: a name and a
  codec that stores the envelope as it is and takes no thenable.\<close>

text \<open>A \<^verbatim>\<open>JSON.stringify\<close> for the worked store (properties that are \<^verbatim>\<open>undefined\<close> are
  left out; strings are not escaped), and a \<^verbatim>\<open>JSON.parse\<close> that takes no text at all.\<close>

fun commas :: "string list \<Rightarrow> string" where
  "commas [] = []"
| "commas [x] = x"
| "commas (x # y # zs) = x @ '','' @ commas (y # zs)"

fun jsonStringify :: "val \<Rightarrow> string" where
  "jsonStringify Null = ''null''"
| "jsonStringify (BoolV b) = (if b then ''true'' else ''false'')"
| "jsonStringify (NumV n) = (if n < 0 then ''-'' @ decimal (nat (- n)) else decimal (nat n))"
| "jsonStringify (StrV s) = [CHR 0x22] @ s @ [CHR 0x22]"
| "jsonStringify (ObjV kvs) =
     ''{'' @ commas (map (\<lambda>kv. [CHR 0x22] @ fst kv @ [CHR 0x22] @ '':'' @ jsonStringify (snd kv))
                      (filter (\<lambda>kv. snd kv \<noteq> Undefined) kvs)) @ ''}''"
| "jsonStringify v = ''{}''"

definition jsonParse :: "val \<Rightarrow> val + val" where
  "jsonParse text = Inl (ErrV ''SyntaxError'')"

definition counterDefaults :: "world PersistOptions" where
  "counterDefaults = defaultOptions memoryStorageOnce jsonStringify jsonParse"

definition plainSerialize :: "world userfn" where
  "plainSerialize v u = (if hasThen v then (Inl (ErrV ''DataCloneError''), u) else (Inr v, u))"

definition plainDeserialize :: "world userfn" where
  "plainDeserialize v u =
     (if hasThen v \<or> getProp v ''state'' = Inr PromiseV then (Inl (ErrV ''DataCloneError''), u)
      else (Inr v, u))"

definition counterSettings :: "world PersistOption list" where
  "counterSettings =
     [OptName ''counter'', OptSerialize plainSerialize, OptDeserialize plainDeserialize]"

definition counterOptions :: "world PersistOptions" where
  "counterOptions = spreadOptions counterDefaults counterSettings"

text \<open>A storage that is full, and a serializer that fails.\<close>

definition fullStorage :: "world PersistentStorage" where
  "fullStorage = memoryStorage\<lparr>setItem := (\<lambda>k v u. (Inl (ErrV ''QuotaExceededError''), u))\<rparr>"

definition failingSerialize :: "world userfn" where
  "failingSerialize v u = (Inl (ErrV ''TypeError: cyclic object value''), u)"

text \<open>The store before \<^verbatim>\<open>persistImpl\<close> runs: no state yet, nothing in the closure.\<close>

definition blankStore :: "world middleware" where
  "blankStore =
     \<lparr> options = counterOptions,
       persistentStorage = None,
       initialState = Undefined,
       initialStateFromPersistentStorage = Undefined,
       hasHydrated = False,
       hydrationListeners = [],
       finishHydrationListeners = [],
       mem = Undefined,
       console = [],
       flagLog = [],
       deferred = 0,
       env = emptyWorld \<rparr>"

definition counterInitializer :: "(val, world) call" where
  "counterInitializer u = (Inr (ObjV [(''count'', NumV 0)]), u)"

definition plainStore :: "string \<Rightarrow> world setter option" where
  "plainStore = (\<lambda>p. None)(''setState'' := Some parentSet)"

text \<open>The store \<^verbatim>\<open>persistImpl\<close> leaves for the initial state \<^verbatim>\<open>{count: 0}\<close>, once the
  state has been set to \<^verbatim>\<open>{count: 5}\<close> and the storage cleared (\<open>counterStore_reached\<close>
  below runs these steps).\<close>

definition counterStore :: "world middleware" where
  "counterStore =
     \<lparr> options = counterOptions,
       persistentStorage = Some memoryStorage,
       initialState = ObjV [(''count'', NumV 0)],
       initialStateFromPersistentStorage = ObjV [(''count'', NumV 0)],
       hasHydrated = True,
       hydrationListeners = [],
       finishHydrationListeners = [],
       mem = ObjV [(''count'', NumV 5)],
       console = [],
       flagLog = [False, True],
       deferred = 0,
       env = emptyWorld\<lparr>resolutions := 1\<rparr> \<rparr>"

text \<open>The same store over other storage contents and options: an entry that does not
  parse; an entry of the configured version; an entry written under version 1, with no \<^verbatim>\<open>migrate\<close> and with a \<^verbatim>\<open>migrate\<close> that
  returns a promise; an entry whose state has a property \<^verbatim>\<open>then\<close>; and a post-hydration
  callback with a post-hydration listener that throws.\<close>

definition failingDeserialize :: "world userfn" where
  "failingDeserialize v u = (Inl (ErrV ''SyntaxError''), u)"

definition corruptedStore :: "world middleware" where
  "corruptedStore =
     counterStore\<lparr>options := counterOptions\<lparr>deserialize := failingDeserialize\<rparr>,
       env := emptyWorld\<lparr>resolutions := 1, items := [(''counter'', StrV ''{'')]\<rparr>\<rparr>"

definition savedStore :: "world middleware" where
  "savedStore =
     counterStore\<lparr>env := emptyWorld\<lparr>resolutions := 1,
       items := [(''counter'', envelope (ObjV [(''count'', NumV 7)]) (NumV 0))]\<rparr>\<rparr>"

definition outdatedStore :: "world middleware" where
  "outdatedStore =
     counterStore\<lparr>env := emptyWorld\<lparr>resolutions := 1,
       items := [(''counter'', envelope (ObjV [(''count'', NumV 7)]) (NumV 1))]\<rparr>\<rparr>"

definition asyncMigrate :: "val \<Rightarrow> val \<Rightarrow> (val, world) call" where
  "asyncMigrate persistedState v u = (Inr PromiseV, u)"

definition asyncMigrateStore :: "world middleware" where
  "asyncMigrateStore = outdatedStore\<lparr>options := counterOptions\<lparr>migrate := Some asyncMigrate\<rparr>\<rparr>"

definition thenStateStore :: "world middleware" where
  "thenStateStore =
     counterStore\<lparr>env := emptyWorld\<lparr>resolutions := 1,
       items := [(''counter'', envelope (ObjV [(''then'', NumV 1)]) (NumV 0))]\<rparr>\<rparr>"

definition failingListener :: "world userfn" where
  "failingListener v u = (Inl (ErrV ''listener failed''), u)"

definition watchedStore :: "world middleware" where
  "watchedStore =
     counterStore\<lparr>options := counterOptions\<lparr>onRehydrateStorage := Some (\<lambda>st u. (Inr (Some recordCall), u))\<rparr>,
       finishHydrationListeners := [failingListener]\<rparr>"

text \<open>A migration from version 1 to version 2, which multiplies the count by ten, and
  the store that needs it.\<close>

definition tenfoldMigrate :: "val \<Rightarrow> val \<Rightarrow> (val, world) call" where
  "tenfoldMigrate persistedState v u =
     (case getProp persistedState ''count'' of
        Inr (NumV n) \<Rightarrow> (Inr (ObjV [(''count'', NumV (n * 10))]), u)
      | _ \<Rightarrow> (Inl (ErrV ''TypeError: count is not a number''), u))"

definition migratingStore :: "world middleware" where
  "migratingStore =
     outdatedStore\<lparr>options := counterOptions\<lparr>version := NumV 2, migrate := Some tenfoldMigrate\<rparr>\<rparr>"

text \<open>The same store with the default codec: the default options but for the name.\<close>

definition defaultStoreSet :: "world middleware" where
  "defaultStoreSet = counterStore\<lparr>options := counterDefaults\<lparr>name := ''counter''\<rparr>\<rparr>"

text \<open>A serializer that returns a promise.\<close>

definition asyncSerialize :: "val \<Rightarrow> (val, world) call" where
  "asyncSerialize v w = (Inr PromiseV, w)"

text \<open>A store handle whose \<^verbatim>\<open>setState\<close> changes the state and then throws, as when a
  subscriber of the store throws.\<close>

definition throwingSetState :: "world setter" where
  "throwingSetState a replace s = (Inl (ErrV ''subscriber failed''), snd (parentSet a replace s))"

definition throwingStore :: "string \<Rightarrow> world setter option" where
  "throwingStore = (\<lambda>p. None)(''setState'' := Some throwingSetState)"

text \<open>A provider whose storage cannot be reached.\<close>

definition deniedStorage :: "(world PersistentStorage option, world) call" where
  "deniedStorage u = (Inl (ErrV ''SecurityError''), u)"

section \<open>Facts about the building blocks\<close>

lemmas call_defs = andThen_def throw_def return_def user_def

lemmas stage_defs =
  persistentStorageGetItem_def persistentStorageSetItem_def persistentStorageRemoveItem_def
  updatePersistentStorage_def deserializeStage_def versionStage_def mergeStage_def
  postRehydration_def finishStage_def failStage_def beginHydration_def hydrationChain_def
  hydrate_def envelope_def parentGet_def parentSet_def setHasHydrated_def consoleWarn_def
  consoleError_def thenablify_def

lemmas world_defs =
  counterStore_def counterOptions_def defaultOptions_def defaultMerge_def memoryStorage_def
  memoryStorageOnce_def recordCall_def emptyWorld_def assign_def blankStore_def
  counterInitializer_def plainStore_def deniedStorage_def counterDefaults_def
  throwingSetState_def throwingStore_def asyncSerialize_def
  counterSettings_def spreadOptions_def fullStorage_def failingSerialize_def
  plainSerialize_def plainDeserialize_def failingDeserialize_def corruptedStore_def outdatedStore_def asyncMigrate_def
  asyncMigrateStore_def thenStateStore_def failingListener_def watchedStore_def
  tenfoldMigrate_def migratingStore_def savedStore_def defaultStoreSet_def
  jsonParse_def

lemma callSetter_Some [simp]: "callSetter (Some g) = g"
  by (rule ext)+ (simp add: callSetter_def)

lemma chain_thrown [simp]: "chain (Inl e, s) stages = (Inl e, s)"
  by (cases stages) simp_all

lemma chain_rejected_then:
  "chain (Inr (Rejected ti e), s) (map Then gs) = (Inr (Rejected ti e), s)"
  by (induction gs) simp_all

lemma chain_append:
  "chain p (xs @ ys) = chain (chain p xs) ys"
proof (induction xs arbitrary: p)
  case Nil
  show ?case by (cases p; cases "fst p"; cases ys) auto
next
  case (Cons x xs)
  show ?case
  proof (cases p)
    case (Pair r s)
    show ?thesis
    proof (cases r)
      case (Inl e)
      with Pair show ?thesis by simp
    next
      case (Inr t)
      with Pair Cons show ?thesis by (cases x) simp_all
    qed
  qed
qed

section \<open>The thenable adapter\<close>

text \<open>
  C5. When the wrapped function throws: in the default mode every \<^verbatim>\<open>then\<close> chained
  after it is skipped (none of the handlers runs, the state stays as the throw left it)
  and the first \<^verbatim>\<open>catch\<close> handler is called with the thrown value; in throw-immediately
  mode the call itself throws that value. A \<^verbatim>\<open>catch\<close> on a thenable that holds a value
  returns the thenable and runs nothing.
\<close>

theorem thenablify_throw_routing:
  assumes "f a s = (Inl e, s')"
  shows "chain (thenablify f False a s) (map Then gs) = (Inr (Rejected False e), s')
       \<and> chain (thenablify f False a s) (map Then gs @ Catch h # rest)
           = chain (thenablify h False e s') rest
       \<and> thenablify f True a s = (Inl e, s')
       \<and> catch_method (Fulfilled ti r) h t = (Inr (Fulfilled ti r), t)
       \<and> chain (Inr (Fulfilled ti r), t) (Catch h # rest) = chain (Inr (Fulfilled ti r), t) rest"
proof -
  have rejected: "thenablify f False a s = (Inr (Rejected False e), s')"
    using assms by (simp add: thenablify_def)
  have skipped: "chain (thenablify f False a s) (map Then gs) = (Inr (Rejected False e), s')"
    by (simp add: rejected chain_rejected_then)
  have caught: "chain (thenablify f False a s) (map Then gs @ Catch h # rest)
      = chain (thenablify h False e s') rest"
    by (simp add: chain_append skipped)
  have rethrown: "thenablify f True a s = (Inl e, s')"
    using assms by (simp add: thenablify_def)
  show ?thesis
    using skipped caught rethrown by simp
qed

theorem thenablify_throw_routing_witness:
  "chain (thenablify (\<lambda>a. throw (StrV ''boom'')) False Undefined counterStore)
       (map Then [mergeStage, versionStage]) = (Inr (Rejected False (StrV ''boom'')), counterStore)
   \<and> chain (thenablify (\<lambda>a. throw (StrV ''boom'')) False Undefined counterStore)
       (map Then [mergeStage, versionStage] @ [Catch (failStage (Some recordCall))])
     = (Inr (Fulfilled False Undefined),
        counterStore\<lparr>env := emptyWorld\<lparr>resolutions := 1, calls := [(Undefined, StrV ''boom'')]\<rparr>\<rparr>)
   \<and> thenablify (\<lambda>a. throw (StrV ''boom'')) True Undefined counterStore
     = (Inl (StrV ''boom''), counterStore)"
proof -
  have thrown: "(\<lambda>a. throw (StrV ''boom'')) Undefined counterStore = (Inl (StrV ''boom''), counterStore)"
    by (simp add: throw_def)
  have caught: "thenablify (failStage (Some recordCall)) False (StrV ''boom'') counterStore
      = (Inr (Fulfilled False Undefined),
         counterStore\<lparr>env := emptyWorld\<lparr>resolutions := 1, calls := [(Undefined, StrV ''boom'')]\<rparr>\<rparr>)"
    by (simp add: stage_defs call_defs world_defs)
  show ?thesis
    using thenablify_throw_routing [of "\<lambda>a. throw (StrV ''boom'')" Undefined counterStore
        "StrV ''boom''" counterStore "[mergeStage, versionStage]" "failStage (Some recordCall)"
        "[]" False Undefined counterStore] thrown caught
    by simp
qed

section \<open>Wiring the store\<close>

text \<open>
  C10. The \<^verbatim>\<open>update\<close> of the context-store variant, for a key other than \<^verbatim>\<open>k\<close> itself:
  the property \<open>k\<close> keeps its value and the replaced value lands under the property named
  \<^verbatim>\<open>k\<close>, whereas the \<^verbatim>\<open>update\<close> of the mutator-chain variant replaces the property \<open>k\<close>.
  So in the context-store variant the store handle's \<^verbatim>\<open>setState\<close> is the parent's, whatever
  the replacer: a write through it is the parent's write and leaves the caller's
  environment, the storage with it, as it was; in the mutator-chain variant the handle's
  \<^verbatim>\<open>setState\<close> is the persisting wrapper.
\<close>

theorem update_context_writes_literal_k:
  assumes "k \<noteq> ''k''"
      and "parentStore ''setState'' = Some parentSet"
  shows "update_context t k replacer k = t k
       \<and> update_context t k replacer ''k'' = replacer (t k)
       \<and> update t k replacer k = replacer (t k)
       \<and> update_context parentStore ''setState'' wrap ''setState'' = parentStore ''setState''
       \<and> callSetter (update_context parentStore ''setState''
            (\<lambda>setState. Some (persistSet (callSetter setState))) ''setState'') a replace s
           = parentSet a replace s
       \<and> env (snd (parentSet a replace s)) = env s
       \<and> callSetter (update parentStore ''setState''
            (\<lambda>setState. Some (persistSet (callSetter setState))) ''setState'') a replace s
           = persistSet parentSet a replace s"
  using assms
  by (simp add: update_context_def update_def parentSet_def)

theorem update_context_writes_literal_k_witness:
  "''setState'' \<noteq> ''k''
   \<and> plainStore ''setState'' = Some parentSet
   \<and> update_context plainStore ''setState'' (\<lambda>f. Some (warnSet (callSetter f))) ''setState''
       = Some parentSet
   \<and> update_context plainStore ''setState'' (\<lambda>f. Some (warnSet (callSetter f))) ''k''
       = Some (warnSet parentSet)
   \<and> update plainStore ''setState'' (\<lambda>f. Some (warnSet (callSetter f))) ''setState''
       = Some (warnSet parentSet)
   \<and> env (snd (parentSet (ObjV [(''count'', NumV 1)]) False counterStore)) = env counterStore"
proof -
  have key: "''setState'' \<noteq> ''k''"
    by simp
  have handle: "plainStore ''setState'' = Some parentSet"
    by (simp add: plainStore_def)
  show ?thesis
    using update_context_writes_literal_k [where k = "''setState''" and parentStore = plainStore
        and t = plainStore and replacer = "\<lambda>f. Some (warnSet (callSetter f))" and wrap = "\<lambda>f. f"
        and a = "ObjV [(''count'', NumV 1)]" and replace = False and s = counterStore]
      key handle
    by simp
qed

text \<open>For the key \<^verbatim>\<open>k\<close> itself the context-store \<^verbatim>\<open>update\<close> does replace the property
  \<open>k\<close>.\<close>

theorem update_context_same_key_counterexample:
  "update_context ((\<lambda>p. None)(''k'' := Some (1::nat))) ''k'' (map_option Suc) ''k''
     \<noteq> ((\<lambda>p. None)(''k'' := Some (1::nat))) ''k''"
  by (simp add: update_context_def)

text \<open>
  C3. When the storage provider throws as \<^verbatim>\<open>persistImpl\<close> runs, or returns no handle,
  \<^verbatim>\<open>persistImpl\<close> does not throw: it keeps no handle, calls the initializer and returns what
  the initializer returns, and the \<^verbatim>\<open>set\<close> handed to the initializer and the store
  handle's \<^verbatim>\<open>setState\<close> are the warning wrapper. Every call of either logs the warning for
  the configured name and then makes the parent's call: the \<^verbatim>\<open>set\<close>, over the Store
  Engine's \<^verbatim>\<open>setState\<close>, changes the state and returns; the handle's \<^verbatim>\<open>setState\<close> returns
  when the handle's own \<^verbatim>\<open>setState\<close> returns and throws what that one throws, nothing else.
\<close>

theorem storage_unavailable_warns_and_continues:
  assumes "getStorage (spreadOptions defaults opts) = Some g"
      and "g (env s) = (Inl e, u) \<or> g (env s) = (Inr None, u)"
      and "parentStore ''setState'' = Some original"
  shows "\<exists>r setter store s'.
           persistImpl defaults storeInitializer opts parentStore s = (r, Some (setter, store), s')
         \<and> storeInitializer u = (r, env s')
         \<and> persistentStorage s' = None
         \<and> setter a replace t
             = (Inr Undefined,
                (consoleWarn (noPersistentStorage (name (options t))) t)
                  \<lparr>mem := (if replace then a else ObjV (assign (spread (mem t)) (spread a)))\<rparr>)
         \<and> (\<forall>x t'. original a replace (consoleWarn (noPersistentStorage (name (options t))) t)
                       = (Inr x, t')
                \<longrightarrow> callSetter (store ''setState'') a replace t = (Inr Undefined, t'))
         \<and> (\<forall>e' t'. original a replace (consoleWarn (noPersistentStorage (name (options t))) t)
                       = (Inl e', t')
                \<longrightarrow> callSetter (store ''setState'') a replace t = (Inl e', t'))"
proof -
  let ?s0 = "s\<lparr>options := spreadOptions defaults opts\<rparr>"
  have recovered: "tryElse (case getStorage (options ?s0) of
        None \<Rightarrow> throw (ErrV ''TypeError: getStorage is not a function'') | Some g \<Rightarrow> user g)
      (\<lambda>e. return None) ?s0 = (Inr None, ?s0\<lparr>env := u\<rparr>)"
    using assms(1,2) by (auto simp add: tryElse_def call_defs)
  obtain r u' where initialized: "storeInitializer u = (r, u')"
    by (cases "storeInitializer u")
  have built: "persistImpl defaults storeInitializer opts parentStore s
      = (r, Some (warnWiring parentStore), ?s0\<lparr>env := u', persistentStorage := None\<rparr>)"
    using initialized recovered by (simp add: persistImpl_def user_def)
  have wrapper: "warnSet f a replace t
      = (case f a replace (consoleWarn (noPersistentStorage (name (options t))) t) of
           (Inl e', t') \<Rightarrow> (Inl e', t') | (Inr x, t') \<Rightarrow> (Inr Undefined, t'))"
    for f :: "'a setter"
    by (simp add: warnSet_def call_defs split: prod.splits sum.splits)
  have handle: "snd (warnWiring parentStore) ''setState'' = Some (warnSet original)"
    using assms(3) by (simp add: warnWiring_def update_def)
  show ?thesis
    using built initialized handle
    by (simp add: warnWiring_def wrapper parentSet_def consoleWarn_def)
qed

theorem storage_unavailable_warns_and_continues_witness:
  "(case persistImpl (defaultOptions deniedStorage jsonStringify jsonParse) counterInitializer
          [OptName ''counter''] plainStore blankStore of
      (r, Some (setter, store), s') \<Rightarrow>
        (r, persistentStorage s', setter (ObjV [(''count'', NumV 1)]) False counterStore,
         callSetter (store ''setState'') (ObjV [(''count'', NumV 1)]) False counterStore)
    | (r, None, s') \<Rightarrow> (r, None, (r, s'), (r, s')))
     = (Inr (ObjV [(''count'', NumV 0)]), None,
        (Inr Undefined, counterStore\<lparr>console := [Warn (noPersistentStorage ''counter'')],
                                     mem := ObjV [(''count'', NumV 1)]\<rparr>),
        (Inr Undefined, counterStore\<lparr>console := [Warn (noPersistentStorage ''counter'')],
                                     mem := ObjV [(''count'', NumV 1)]\<rparr>))
   \<and> (case persistImpl counterDefaults counterInitializer counterSettings plainStore
            (blankStore\<lparr>env := emptyWorld\<lparr>resolutions := 1\<rparr>\<rparr>) of
        (r, Some (setter, store), s') \<Rightarrow>
          (r, persistentStorage s', setter (ObjV [(''count'', NumV 1)]) True counterStore,
           callSetter (store ''setState'') (ObjV [(''count'', NumV 1)]) True counterStore)
      | (r, None, s') \<Rightarrow> (r, None, (r, s'), (r, s')))
     = (Inr (ObjV [(''count'', NumV 0)]), None,
        (Inr Undefined, counterStore\<lparr>console := [Warn (noPersistentStorage ''counter'')],
                                     mem := ObjV [(''count'', NumV 1)]\<rparr>),
        (Inr Undefined, counterStore\<lparr>console := [Warn (noPersistentStorage ''counter'')],
                                     mem := ObjV [(''count'', NumV 1)]\<rparr>))"
proof -
  let ?a = "ObjV [(''count'', NumV 1)]"
  let ?after = "counterStore\<lparr>console := [Warn (noPersistentStorage ''counter'')], mem := ?a\<rparr>"
  have provider: "getStorage (spreadOptions (defaultOptions deniedStorage jsonStringify jsonParse)
      [OptName ''counter'']) = Some deniedStorage"
    by (simp add: spreadOptions_def defaultOptions_def)
  have provider2: "getStorage (spreadOptions counterDefaults counterSettings) = Some memoryStorageOnce"
    by (simp add: world_defs)
  have denied: "deniedStorage (env blankStore) = (Inl (ErrV ''SecurityError''), emptyWorld)
      \<or> deniedStorage (env blankStore) = (Inr None, emptyWorld)"
    by (simp add: deniedStorage_def blankStore_def)
  have absent: "memoryStorageOnce (env (blankStore\<lparr>env := emptyWorld\<lparr>resolutions := 1\<rparr>\<rparr>))
        = (Inl Undefined, emptyWorld\<lparr>resolutions := 2\<rparr>)
      \<or> memoryStorageOnce (env (blankStore\<lparr>env := emptyWorld\<lparr>resolutions := 1\<rparr>\<rparr>))
        = (Inr None, emptyWorld\<lparr>resolutions := 2\<rparr>)"
    by (simp add: memoryStorageOnce_def emptyWorld_def)
  have handle: "plainStore ''setState'' = Some parentSet"
    by (simp add: plainStore_def)
  have initial: "counterInitializer w = (Inr (ObjV [(''count'', NumV 0)]), w)" for w
    by (simp add: counterInitializer_def)
  have parent: "parentSet ?a replace
        (consoleWarn (noPersistentStorage (name (options counterStore))) counterStore)
      = (Inr Undefined, ?after)" for replace
    by (simp add: parentSet_def consoleWarn_def world_defs)
  have written: "(consoleWarn (noPersistentStorage (name (options counterStore))) counterStore)
      \<lparr>mem := (if replace then ?a else ObjV (assign (spread (mem counterStore)) (spread ?a)))\<rparr>
      = ?after" for replace
    by (simp add: consoleWarn_def world_defs)
  have first: "(case persistImpl (defaultOptions deniedStorage jsonStringify jsonParse)
          counterInitializer [OptName ''counter''] plainStore blankStore of
      (r, Some (setter, store), s') \<Rightarrow>
        (r, persistentStorage s', setter ?a False counterStore,
         callSetter (store ''setState'') ?a False counterStore)
    | (r, None, s') \<Rightarrow> (r, None, (r, s'), (r, s')))
     = (Inr (ObjV [(''count'', NumV 0)]), None, (Inr Undefined, ?after), (Inr Undefined, ?after))"
    using storage_unavailable_warns_and_continues [where g = deniedStorage
          and defaults = "defaultOptions deniedStorage jsonStringify jsonParse"
          and opts = "[OptName ''counter'']" and s = blankStore
          and e = "ErrV ''SecurityError''" and u = emptyWorld
          and parentStore = plainStore and original = parentSet
          and storeInitializer = counterInitializer
          and a = ?a and replace = False and t = counterStore]
      provider denied handle initial parent [of False] written [of False]
    by auto
  have second: "(case persistImpl counterDefaults counterInitializer counterSettings plainStore
            (blankStore\<lparr>env := emptyWorld\<lparr>resolutions := 1\<rparr>\<rparr>) of
        (r, Some (setter, store), s') \<Rightarrow>
          (r, persistentStorage s', setter ?a True counterStore,
           callSetter (store ''setState'') ?a True counterStore)
      | (r, None, s') \<Rightarrow> (r, None, (r, s'), (r, s')))
     = (Inr (ObjV [(''count'', NumV 0)]), None, (Inr Undefined, ?after), (Inr Undefined, ?after))"
    using storage_unavailable_warns_and_continues [where g = memoryStorageOnce
          and defaults = counterDefaults and opts = counterSettings
          and s = "blankStore\<lparr>env := emptyWorld\<lparr>resolutions := 1\<rparr>\<rparr>"
          and e = Undefined and u = "emptyWorld\<lparr>resolutions := 2\<rparr>"
          and parentStore = plainStore and original = parentSet
          and storeInitializer = counterInitializer
          and a = ?a and replace = True and t = counterStore]
      provider2 absent handle initial parent [of True] written [of True]
    by auto
  show ?thesis
    using first second by simp
qed

text \<open>The same construction over a store handle whose \<^verbatim>\<open>setState\<close> throws: the wrapper
  logs the warning, the state changes, and the throw leaves the handle's \<^verbatim>\<open>setState\<close>.\<close>

theorem storage_unavailable_parent_throw_counterexample:
  "(case persistImpl (defaultOptions deniedStorage jsonStringify jsonParse) counterInitializer
          [OptName ''counter''] throwingStore blankStore of
      (r, Some (setter, store), s') \<Rightarrow>
        (persistentStorage s',
         callSetter (store ''setState'') (ObjV [(''count'', NumV 1)]) False counterStore)
    | (r, None, s') \<Rightarrow> (None, (r, s')))
     = (None,
        (Inl (ErrV ''subscriber failed''),
         counterStore\<lparr>console := [Warn (noPersistentStorage ''counter'')],
                      mem := ObjV [(''count'', NumV 1)]\<rparr>))"
  by (simp add: persistImpl_def tryElse_def warnWiring_def warnSet_def update_def Let_def
      stage_defs call_defs world_defs)

section \<open>Writing to the storage\<close>

lemma persistImpl_wires_persistSet:
  assumes "getStorage (spreadOptions defaults opts) = Some g"
      and "g (env s0) = (Inr (Some h0), u0)"
  shows "\<exists>r0 s0'. persistImpl defaults storeInitializer opts parentStore s0
           = (r0, Some (persistWiring parentStore), s0')"
  using assms
  by (auto simp add: persistImpl_def tryElse_def call_defs Let_def
      split: prod.splits sum.splits)

text \<open>The worked store: \<^verbatim>\<open>persistImpl\<close> on the blank store, and the two steps that lead
  from there to \<open>counterStore\<close>.\<close>

lemma counterStore_built:
  "persistImpl counterDefaults counterInitializer counterSettings plainStore blankStore
     = (Inr (ObjV [(''count'', NumV 0)]),
        Some (persistSet parentSet, plainStore(''setState'' := Some (persistSet parentSet))),
        counterStore\<lparr>mem := ObjV [(''count'', NumV 0)],
          env := emptyWorld\<lparr>resolutions := 1,
            items := [(''counter'',
              ObjV [(''state'', ObjV [(''count'', NumV 0)]), (''version'', NumV 0)])]\<rparr>\<rparr>)"
  by (simp add: persistImpl_def persistWiring_def tryElse_def Let_def update_def
      stage_defs call_defs world_defs)

lemma counterStore_reached:
  "snd (persistentStorageRemoveItem Undefined
     (snd (persistSet parentSet (ObjV [(''count'', NumV 5)]) False
        (counterStore\<lparr>mem := ObjV [(''count'', NumV 0)],
          env := emptyWorld\<lparr>resolutions := 1,
            items := [(''counter'',
              ObjV [(''state'', ObjV [(''count'', NumV 0)]), (''version'', NumV 0)])]\<rparr>\<rparr>))))
     = counterStore"
  by (simp add: persistSet_def stage_defs call_defs world_defs)

text \<open>
  C2. When the provider gave a handle, \<^verbatim>\<open>persistImpl\<close> hands the initializer the persisting
  wrapper of \<^verbatim>\<open>parentSet\<close> as its \<^verbatim>\<open>set\<close> and puts the persisting wrapper of the store
  handle's \<^verbatim>\<open>setState\<close> in the place of that \<^verbatim>\<open>setState\<close>. A call of the wrapper of a
  \<^verbatim>\<open>setState\<close> first makes the call of that \<^verbatim>\<open>setState\<close> (the Store Engine's changes the
  state of the store and returns). When that call has returned and a handle is in place,
  the wrapper calls \<^verbatim>\<open>partialize\<close> on a copy of the new state and, for the selection it
  returns, \<^verbatim>\<open>serialize\<close> on the object \<^verbatim>\<open>{state: selection, version: options.version}\<close>:
  \<^item> if \<^verbatim>\<open>serialize\<close> returns a value that is not promise-like, \<^verbatim>\<open>setItem\<close> is called with the
    configured name and that value, and the call returns;
  \<^item> if \<^verbatim>\<open>serialize\<close> returns a promise, the \<^verbatim>\<open>setItem\<close> handler is chained on the promise
    and the call returns;
  \<^item> if \<^verbatim>\<open>serialize\<close> throws, or \<^verbatim>\<open>setItem\<close> throws, the call throws the same value:
    nothing catches it.
\<close>

theorem setState_writes_envelope:
  assumes "getStorage (spreadOptions defaults opts) = Some g"
      and "g (env s0) = (Inr (Some h0), u0)"
      and "parentStore ''setState'' = Some original"
      and "setState a replace s = (Inr x, s1)"
      and "persistentStorage s1 = Some h"
      and "partialize (options s1) (ObjV (spread (mem s1))) (env s1) = (Inr selected, u1)"
  shows "(\<exists>r0 s0'. persistImpl defaults storeInitializer opts parentStore s0
            = (r0, Some (persistSet parentSet,
                         parentStore(''setState'' := Some (persistSet original))), s0'))
       \<and> parentSet a replace s
            = (Inr Undefined,
               s\<lparr>mem := (if replace then a else ObjV (assign (spread (mem s)) (spread a)))\<rparr>)
       \<and> (serialize (options s1)
              (ObjV [(''state'', selected), (''version'', version (options s1))]) u1
              = (Inr str, u2)
            \<and> \<not> hasThen str \<and> setItem h (name (options s1)) str u2 = (Inr r, u3)
          \<longrightarrow> persistSet setState a replace s = (Inr Undefined, s1\<lparr>env := u3\<rparr>))
       \<and> (serialize (options s1)
              (ObjV [(''state'', selected), (''version'', version (options s1))]) u1
              = (Inr PromiseV, u2)
          \<longrightarrow> persistSet setState a replace s
                = (Inr Undefined, s1\<lparr>env := u2, deferred := Suc (deferred s1)\<rparr>))
       \<and> (serialize (options s1)
              (ObjV [(''state'', selected), (''version'', version (options s1))]) u1
              = (Inl e, u2)
          \<longrightarrow> persistSet setState a replace s = (Inl e, s1\<lparr>env := u2\<rparr>))
       \<and> (serialize (options s1)
              (ObjV [(''state'', selected), (''version'', version (options s1))]) u1
              = (Inr str, u2)
            \<and> \<not> hasThen str \<and> setItem h (name (options s1)) str u2 = (Inl e, u3)
          \<longrightarrow> persistSet setState a replace s = (Inl e, s1\<lparr>env := u3\<rparr>))"
proof -
  let ?envelope = "ObjV [(''state'', selected), (''version'', version (options s1))]"
  have wired: "\<exists>r0 s0'. persistImpl defaults storeInitializer opts parentStore s0
      = (r0, Some (persistSet parentSet,
                   parentStore(''setState'' := Some (persistSet original))), s0')"
    using persistImpl_wires_persistSet [OF assms(1,2), of storeInitializer parentStore] assms(3)
    by (simp add: persistWiring_def update_def)
  have engine: "parentSet a replace s
      = (Inr Undefined,
         s\<lparr>mem := (if replace then a else ObjV (assign (spread (mem s)) (spread a)))\<rparr>)"
    by (simp add: parentSet_def)
  have written: "persistSet setState a replace s = (Inr Undefined, s1\<lparr>env := u3\<rparr>)"
    if "serialize (options s1) ?envelope u1 = (Inr str, u2)"
      and "\<not> hasThen str" and "setItem h (name (options s1)) str u2 = (Inr r, u3)"
    using that assms(4,5,6)
    by (simp add: persistSet_def stage_defs call_defs)
  have chained: "persistSet setState a replace s
      = (Inr Undefined, s1\<lparr>env := u2, deferred := Suc (deferred s1)\<rparr>)"
    if "serialize (options s1) ?envelope u1 = (Inr PromiseV, u2)"
    using that assms(4,5,6)
    by (simp add: persistSet_def stage_defs call_defs)
  have serializeThrows: "persistSet setState a replace s = (Inl e, s1\<lparr>env := u2\<rparr>)"
    if "serialize (options s1) ?envelope u1 = (Inl e, u2)"
    using that assms(4,5,6)
    by (simp add: persistSet_def stage_defs call_defs)
  have writeThrows: "persistSet setState a replace s = (Inl e, s1\<lparr>env := u3\<rparr>)"
    if "serialize (options s1) ?envelope u1 = (Inr str, u2)"
      and "\<not> hasThen str" and "setItem h (name (options s1)) str u2 = (Inl e, u3)"
    using that assms(4,5,6)
    by (simp add: persistSet_def stage_defs call_defs)
  show ?thesis
    using wired engine written chained serializeThrows writeThrows by blast
qed

theorem setState_writes_envelope_witness:
  "persistImpl counterDefaults counterInitializer counterSettings plainStore blankStore
     = (Inr (ObjV [(''count'', NumV 0)]),
        Some (persistSet parentSet, plainStore(''setState'' := Some (persistSet parentSet))),
        counterStore\<lparr>mem := ObjV [(''count'', NumV 0)],
          env := emptyWorld\<lparr>resolutions := 1,
            items := [(''counter'',
              ObjV [(''state'', ObjV [(''count'', NumV 0)]), (''version'', NumV 0)])]\<rparr>\<rparr>)
   \<and> persistSet parentSet (ObjV [(''count'', NumV 6)]) False counterStore
     = (Inr Undefined,
        counterStore\<lparr>mem := ObjV [(''count'', NumV 6)],
          env := emptyWorld\<lparr>resolutions := 1,
            items := [(''counter'',
              ObjV [(''state'', ObjV [(''count'', NumV 6)]), (''version'', NumV 0)])]\<rparr>\<rparr>)
   \<and> persistSet parentSet (ObjV [(''count'', NumV 6)]) False
       (counterStore\<lparr>options := counterOptions\<lparr>serialize := asyncSerialize\<rparr>\<rparr>)
     = (Inr Undefined,
        counterStore\<lparr>options := counterOptions\<lparr>serialize := asyncSerialize\<rparr>,
          mem := ObjV [(''count'', NumV 6)], deferred := 1\<rparr>)
   \<and> persistSet parentSet (ObjV [(''count'', NumV 6)]) False
       (counterStore\<lparr>options := counterOptions\<lparr>serialize := failingSerialize\<rparr>\<rparr>)
     = (Inl (ErrV ''TypeError: cyclic object value''),
        counterStore\<lparr>options := counterOptions\<lparr>serialize := failingSerialize\<rparr>,
          mem := ObjV [(''count'', NumV 6)]\<rparr>)
   \<and> persistSet parentSet (ObjV [(''count'', NumV 6)]) False
       (counterStore\<lparr>persistentStorage := Some fullStorage\<rparr>)
     = (Inl (ErrV ''QuotaExceededError''),
        counterStore\<lparr>persistentStorage := Some fullStorage, mem := ObjV [(''count'', NumV 6)]\<rparr>)"
proof -
  let ?a = "ObjV [(''count'', NumV 6)]"
  let ?written = "ObjV [(''state'', ?a), (''version'', NumV 0)]"
  have provider: "getStorage (spreadOptions counterDefaults counterSettings) = Some memoryStorageOnce"
    by (simp add: world_defs)
  have resolved: "memoryStorageOnce (env blankStore)
      = (Inr (Some memoryStorage), emptyWorld\<lparr>resolutions := 1\<rparr>)"
    by (simp add: world_defs)
  have handle: "plainStore ''setState'' = Some parentSet"
    by (simp add: plainStore_def)
  have engine: "parentSet ?a False t = (Inr Undefined, t\<lparr>mem := ?a\<rparr>)"
    if "mem t = ObjV [(''count'', NumV 5)]" for t :: "world middleware"
    using that by (simp add: parentSet_def assign_def)
  note rule = setState_writes_envelope [where defaults = counterDefaults
        and opts = counterSettings and g = memoryStorageOnce and ?s0.0 = blankStore
        and ?h0.0 = memoryStorage and ?u0.0 = "emptyWorld\<lparr>resolutions := 1\<rparr>"
        and parentStore = plainStore and original = parentSet
        and storeInitializer = counterInitializer and setState = parentSet
        and a = ?a and replace = False and x = Undefined
        and selected = ?a, OF provider resolved handle]
  have built: "persistImpl counterDefaults counterInitializer counterSettings plainStore blankStore
     = (Inr (ObjV [(''count'', NumV 0)]),
        Some (persistSet parentSet, plainStore(''setState'' := Some (persistSet parentSet))),
        counterStore\<lparr>mem := ObjV [(''count'', NumV 0)],
          env := emptyWorld\<lparr>resolutions := 1,
            items := [(''counter'',
              ObjV [(''state'', ObjV [(''count'', NumV 0)]), (''version'', NumV 0)])]\<rparr>\<rparr>)"
    by (rule counterStore_built)
  have first: "persistSet parentSet ?a False counterStore
     = (Inr Undefined,
        counterStore\<lparr>mem := ?a,
          env := emptyWorld\<lparr>resolutions := 1, items := [(''counter'', ?written)]\<rparr>\<rparr>)"
    using rule [where s = counterStore and ?s1.0 = "counterStore\<lparr>mem := ?a\<rparr>"
        and h = memoryStorage
        and ?u1.0 = "emptyWorld\<lparr>resolutions := 1\<rparr>"
        and str = ?written
        and ?u2.0 = "emptyWorld\<lparr>resolutions := 1\<rparr>" and r = Undefined
        and ?u3.0 = "emptyWorld\<lparr>resolutions := 1, items := [(''counter'', ?written)]\<rparr>"]
      engine [of counterStore]
    by (simp add: world_defs)
  have second: "persistSet parentSet ?a False
       (counterStore\<lparr>options := counterOptions\<lparr>serialize := asyncSerialize\<rparr>\<rparr>)
     = (Inr Undefined,
        counterStore\<lparr>options := counterOptions\<lparr>serialize := asyncSerialize\<rparr>,
          mem := ?a, deferred := 1\<rparr>)"
    using rule [where s = "counterStore\<lparr>options := counterOptions\<lparr>serialize := asyncSerialize\<rparr>\<rparr>"
        and ?s1.0 = "counterStore\<lparr>options := counterOptions\<lparr>serialize := asyncSerialize\<rparr>,
          mem := ?a\<rparr>"
        and h = memoryStorage and ?u1.0 = "emptyWorld\<lparr>resolutions := 1\<rparr>"
        and ?u2.0 = "emptyWorld\<lparr>resolutions := 1\<rparr>"]
      engine [of "counterStore\<lparr>options := counterOptions\<lparr>serialize := asyncSerialize\<rparr>\<rparr>"]
    by (simp add: world_defs)
  have third: "persistSet parentSet ?a False
       (counterStore\<lparr>options := counterOptions\<lparr>serialize := failingSerialize\<rparr>\<rparr>)
     = (Inl (ErrV ''TypeError: cyclic object value''),
        counterStore\<lparr>options := counterOptions\<lparr>serialize := failingSerialize\<rparr>,
          mem := ?a\<rparr>)"
    using rule [where s = "counterStore\<lparr>options := counterOptions\<lparr>serialize := failingSerialize\<rparr>\<rparr>"
        and ?s1.0 = "counterStore\<lparr>options := counterOptions\<lparr>serialize := failingSerialize\<rparr>,
          mem := ?a\<rparr>"
        and h = memoryStorage and ?u1.0 = "emptyWorld\<lparr>resolutions := 1\<rparr>"
        and e = "ErrV ''TypeError: cyclic object value''"
        and ?u2.0 = "emptyWorld\<lparr>resolutions := 1\<rparr>"]
      engine [of "counterStore\<lparr>options := counterOptions\<lparr>serialize := failingSerialize\<rparr>\<rparr>"]
    by (simp add: world_defs)
  have fourth: "persistSet parentSet ?a False
       (counterStore\<lparr>persistentStorage := Some fullStorage\<rparr>)
     = (Inl (ErrV ''QuotaExceededError''),
        counterStore\<lparr>persistentStorage := Some fullStorage, mem := ?a\<rparr>)"
    using rule [where s = "counterStore\<lparr>persistentStorage := Some fullStorage\<rparr>"
        and ?s1.0 = "counterStore\<lparr>persistentStorage := Some fullStorage, mem := ?a\<rparr>"
        and h = fullStorage and ?u1.0 = "emptyWorld\<lparr>resolutions := 1\<rparr>"
        and str = ?written
        and ?u2.0 = "emptyWorld\<lparr>resolutions := 1\<rparr>" and e = "ErrV ''QuotaExceededError''"
        and ?u3.0 = "emptyWorld\<lparr>resolutions := 1\<rparr>"]
      engine [of "counterStore\<lparr>persistentStorage := Some fullStorage\<rparr>"]
    by (simp add: world_defs)
  show ?thesis
    using built first second third fourth by simp
qed


section \<open>Changing the options\<close>

lemma setOption_keeps_getStorage:
  assumes "\<forall>g. opt \<noteq> OptGetStorage g"
  shows "getStorage (setOption opt opts) = getStorage opts"
  using assms by (cases opt) simp_all

lemma spreadOptions_keeps_getStorage:
  assumes "\<forall>g. OptGetStorage g \<notin> set newOptions"
  shows "getStorage (spreadOptions opts newOptions) = getStorage opts"
  using assms
proof (induction newOptions arbitrary: opts)
  case Nil
  show ?case by (simp add: spreadOptions_def)
next
  case (Cons opt rest)
  have "getStorage (spreadOptions (setOption opt opts) rest) = getStorage (setOption opt opts)"
    using Cons by simp
  moreover have "getStorage (setOption opt opts) = getStorage opts"
    using Cons.prems by (intro setOption_keeps_getStorage) auto
  ultimately show ?case
    by (simp add: spreadOptions_def)
qed

text \<open>
  C9. \<^verbatim>\<open>setOptions\<close> makes the options the old ones overlaid with the new ones, and then
  calls the provider of the overlaid options whenever they have one, keeping the handle
  it returns. New options that set no \<^verbatim>\<open>getStorage\<close> leave the old provider in place, so
  the old provider is called again and its handle replaces the kept one.
\<close>

theorem setOptions_calls_merged_provider:
  assumes "getStorage (options s) = Some g"
      and "\<forall>g'. OptGetStorage g' \<notin> set newOptions"
      and "g (env s) = (Inr h, u)"
      and "g' (env s) = (Inr h', u')"
  shows "setOptions newOptions s
           = (Inr Undefined,
              s\<lparr>options := spreadOptions (options s) newOptions, env := u, persistentStorage := h\<rparr>)
       \<and> setOptions (newOptions @ [OptGetStorage g']) s
           = (Inr Undefined,
              s\<lparr>options := spreadOptions (options s) (newOptions @ [OptGetStorage g']),
                env := u', persistentStorage := h'\<rparr>)"
proof -
  have kept: "getStorage (spreadOptions (options s) newOptions) = Some g"
    using assms(1,2) by (simp add: spreadOptions_keeps_getStorage)
  have replaced: "getStorage (spreadOptions (options s) (newOptions @ [OptGetStorage g'])) = Some g'"
    by (simp add: spreadOptions_def)
  show ?thesis
    using kept replaced assms(3,4)
    by (simp add: setOptions_def Let_def call_defs)
qed

theorem setOptions_calls_merged_provider_witness:
  "setOptions [OptVersion (NumV 1)] counterStore
     = (Inr Undefined,
        counterStore\<lparr>options := counterOptions\<lparr>version := NumV 1\<rparr>,
          env := emptyWorld\<lparr>resolutions := 2\<rparr>, persistentStorage := None\<rparr>)
   \<and> setOptions [OptVersion (NumV 1), OptGetStorage (\<lambda>u. (Inr (Some fullStorage), u))] counterStore
     = (Inr Undefined,
        counterStore\<lparr>options := counterOptions\<lparr>version := NumV 1,
            getStorage := Some (\<lambda>u. (Inr (Some fullStorage), u))\<rparr>,
          persistentStorage := Some fullStorage\<rparr>)"
proof -
  have provider: "getStorage (options counterStore) = Some memoryStorageOnce"
    by (simp add: world_defs)
  have none: "\<forall>g'. OptGetStorage g' \<notin> set [OptVersion (NumV 1)]"
    by simp
  have again: "memoryStorageOnce (env counterStore) = (Inr None, emptyWorld\<lparr>resolutions := 2\<rparr>)"
    by (simp add: world_defs)
  have merged: "spreadOptions (options counterStore) [OptVersion (NumV 1)]
      = counterOptions\<lparr>version := NumV 1\<rparr>"
    by (simp add: counterStore_def spreadOptions_def)
  have merged': "spreadOptions (options counterStore)
        ([OptVersion (NumV 1)] @ [OptGetStorage (\<lambda>u. (Inr (Some fullStorage), u))])
      = counterOptions\<lparr>version := NumV 1,
          getStorage := Some (\<lambda>u. (Inr (Some fullStorage), u))\<rparr>"
    by (simp add: counterStore_def spreadOptions_def)
  show ?thesis
    using setOptions_calls_merged_provider [where s = counterStore and g = memoryStorageOnce
        and newOptions = "[OptVersion (NumV 1)]" and h = None
        and u = "emptyWorld\<lparr>resolutions := 2\<rparr>"
        and g' = "\<lambda>u. (Inr (Some fullStorage), u)" and h' = "Some fullStorage"
        and u' = "env counterStore"]
      provider none again merged merged'
    by (simp add: counterStore_def)
qed

text \<open>New options without a \<^verbatim>\<open>getStorage\<close>: the provider runs a second time all the same,
  and the handle changes.\<close>

theorem setOptions_reresolves_counterexample:
  "(\<forall>g. OptGetStorage g \<notin> set [OptVersion (NumV 1)])
   \<and> resolutions (env counterStore) = 1
   \<and> resolutions (env (snd (setOptions [OptVersion (NumV 1)] counterStore))) = 2
   \<and> persistentStorage counterStore = Some memoryStorage
   \<and> persistentStorage (snd (setOptions [OptVersion (NumV 1)] counterStore)) = None"
  by (simp add: setOptions_def Let_def call_defs world_defs)


section \<open>What the handlers leave unchanged\<close>

lemma then_method_cases:
  "then_method t f s =
     (case t of
        Fulfilled ti r \<Rightarrow> thenablify f ti r s
      | Rejected ti e \<Rightarrow> (Inr (Rejected ti e), s)
      | PromiseV \<Rightarrow> (Inr PromiseV, s\<lparr>deferred := Suc (deferred s)\<rparr>)
      | _ \<Rightarrow> (Inl (ErrV ''TypeError: then is not a function''), s))"
  by (cases t) simp_all

lemma catch_method_cases:
  "catch_method t f s =
     (case t of
        Fulfilled ti r \<Rightarrow> (Inr (Fulfilled ti r), s)
      | Rejected ti e \<Rightarrow> thenablify f ti e s
      | PromiseV \<Rightarrow> (Inr PromiseV, s\<lparr>deferred := Suc (deferred s)\<rparr>)
      | _ \<Rightarrow> (Inl (ErrV ''TypeError: catch is not a function''), s))"
  by (cases t) simp_all

lemma thenablify_state: "snd (thenablify f ti a s) = snd (f a s)"
  by (simp add: thenablify_def split: prod.split sum.split)

text \<open>A relation between the state before and after that every handler of a chain
  respects, and that deferring a handler respects, holds along the whole chain.\<close>

lemma chain_respects:
  assumes same: "\<And>s. R s s"
      and step_trans: "\<And>s t u. R s t \<Longrightarrow> R t u \<Longrightarrow> R s u"
      and bump: "\<And>s. R s (s\<lparr>deferred := Suc (deferred s)\<rparr>)"
      and handlers: "\<And>f a s. Then f \<in> set stages \<or> Catch f \<in> set stages \<Longrightarrow> R s (snd (f a s))"
  shows "R (snd p) (snd (chain p stages))"
  using handlers
proof (induction stages arbitrary: p)
  case Nil
  show ?case by (cases p; cases "fst p") (auto simp: same)
next
  case (Cons x xs)
  obtain r s where p: "p = (r, s)" by (cases p)
  show ?case
  proof (cases r)
    case (Inl e)
    with p show ?thesis by (simp add: same)
  next
    case (Inr t)
    have step: "R s (snd (case x of Then f \<Rightarrow> then_method t f s | Catch f \<Rightarrow> catch_method t f s))"
    proof (cases x)
      case (Then f)
      have "R s (snd (f a s))" for a
        using Cons.prems [of f] Then by simp
      then show ?thesis
        using Then by (auto simp: then_method_cases thenablify_state same bump split: val.split)
    next
      case (Catch f)
      have "R s (snd (f a s))" for a
        using Cons.prems [of f] Catch by simp
      then show ?thesis
        using Catch by (auto simp: catch_method_cases thenablify_state same bump split: val.split)
    qed
    have rest: "R (snd q) (snd (chain q xs))" for q
      using Cons.IH [of q] Cons.prems by auto
    have unfolded: "chain p (x # xs)
        = chain (case x of Then f \<Rightarrow> then_method t f s | Catch f \<Rightarrow> catch_method t f s) xs"
      using p Inr by (cases x) simp_all
    show ?thesis
      using step_trans [OF step rest] p unfolded by simp
  qed
qed

text \<open>The same for a component \<open>g\<close> of the state: what no step of a chain changes, the
  chain does not change.\<close>

lemma chain_keeps:
  assumes "\<And>s. g (s\<lparr>deferred := Suc (deferred s)\<rparr>) = g s"
      and "\<And>f a s. Then f \<in> set stages \<or> Catch f \<in> set stages \<Longrightarrow> g (snd (f a s)) = g s"
  shows "g (snd (chain p stages)) = g (snd p)"
  using chain_respects [where R = "\<lambda>s t. g t = g s" and stages = stages and p = p] assms
  by simp

lemma andThen_alt:
  "andThen m f s = (case fst (m s) of Inl e \<Rightarrow> (Inl e, snd (m s)) | Inr a \<Rightarrow> f a (snd (m s)))"
  by (simp add: andThen_def split: prod.split sum.split)

lemma emit_alt:
  "emit (f # fs) a s =
     (case fst (user (f a) s) of
        Inl e \<Rightarrow> (Inl e, snd (user (f a) s))
      | Inr x \<Rightarrow> emit fs a (snd (user (f a) s)))"
  by (simp split: prod.split sum.split)

lemma user_keeps:
  assumes "\<And>s u. g (s\<lparr>env := u\<rparr>) = g s"
  shows "g (snd (user f s)) = g s"
  by (simp add: user_def assms split: prod.split)

lemma emit_keeps:
  assumes "\<And>s u. g (s\<lparr>env := u\<rparr>) = g s"
  shows "g (snd (emit fs a s)) = g s"
proof (induction fs arbitrary: s)
  case Nil
  show ?case by simp
next
  case (Cons f fs)
  show ?case
    unfolding emit_alt
    by (simp add: Cons.IH user_keeps [of g, OF assms] split: sum.split)
qed

lemma storage_calls_keep:
  assumes "\<And>s u. g (s\<lparr>env := u\<rparr>) = g s"
  shows "g (snd (persistentStorageGetItem a s)) = g s"
    and "g (snd (persistentStorageSetItem a s)) = g s"
    and "g (snd (persistentStorageRemoveItem a s)) = g s"
  by (simp_all add: persistentStorageGetItem_def persistentStorageSetItem_def
      persistentStorageRemoveItem_def throw_def user_keeps [of g, OF assms] split: option.split)

lemma updatePersistentStorage_keeps:
  assumes "\<And>s u. g (s\<lparr>env := u\<rparr>) = g s"
      and "\<And>s. g (s\<lparr>deferred := Suc (deferred s)\<rparr>) = g s"
  shows "g (snd (updatePersistentStorage s)) = g s"
proof -
  have written: "g (snd (chain (thenablify (\<lambda>v. user (serialize (options t) v)) True e t)
      [Then persistentStorageSetItem])) = g t" for e t
  proof -
    have "g (snd (chain (thenablify (\<lambda>v. user (serialize (options t) v)) True e t)
        [Then persistentStorageSetItem]))
        = g (snd (thenablify (\<lambda>v. user (serialize (options t) v)) True e t))"
      using assms(2) storage_calls_keep(2) [of g, OF assms(1)]
      by (intro chain_keeps) auto
    then show ?thesis
      by (simp add: thenablify_state user_keeps [of g, OF assms(1)])
  qed
  show ?thesis
    by (simp add: updatePersistentStorage_def andThen_alt written user_keeps [of g, OF assms(1)]
        split: sum.split)
qed

lemma deserializeStage_keeps:
  assumes "\<And>s u. g (s\<lparr>env := u\<rparr>) = g s"
  shows "g (snd (deserializeStage a s)) = g s"
  by (simp add: deserializeStage_def return_def user_keeps [of g, OF assms])

lemma versionStage_keeps:
  assumes "\<And>s u. g (s\<lparr>env := u\<rparr>) = g s"
      and "\<And>s c. g (s\<lparr>console := c\<rparr>) = g s"
  shows "g (snd (versionStage a s)) = g s"
  by (simp add: versionStage_def return_def throw_def consoleError_def assms(2)
      user_keeps [of g, OF assms(1)] split: sum.split option.split)

lemma postRehydration_keeps:
  assumes "\<And>s u. g (s\<lparr>env := u\<rparr>) = g s"
  shows "g (snd (postRehydration cb st err s)) = g s"
  by (simp add: postRehydration_def return_def user_keeps [of g, OF assms] split: option.split)

lemma failStage_keeps:
  assumes "\<And>s u. g (s\<lparr>env := u\<rparr>) = g s"
  shows "g (snd (failStage cb a s)) = g s"
  by (simp add: failStage_def postRehydration_keeps [of g, OF assms])

lemma mergeStage_keeps:
  assumes "\<And>s u. g (s\<lparr>env := u\<rparr>) = g s"
      and "\<And>s. g (s\<lparr>deferred := Suc (deferred s)\<rparr>) = g s"
      and "\<And>s m. g (s\<lparr>mem := m\<rparr>) = g s"
      and "\<And>s m. g (s\<lparr>initialStateFromPersistentStorage := m\<rparr>) = g s"
  shows "g (snd (mergeStage a s)) = g s"
  by (simp add: mergeStage_def andThen_alt parentSet_def assms(3,4)
      user_keeps [of g, OF assms(1)] updatePersistentStorage_keeps [of g, OF assms(1,2)]
      split: sum.split)

lemma finishStage_keeps:
  assumes "\<And>s u. g (s\<lparr>env := u\<rparr>) = g s"
      and "\<And>s b. g (setHasHydrated b s) = g s"
  shows "g (snd (finishStage cb a s)) = g s"
  by (simp add: finishStage_def andThen_alt return_def assms(2)
      postRehydration_keeps [of g, OF assms(1)] emit_keeps [of g, OF assms(1)]
      split: sum.split)


section \<open>The hydration flag\<close>

lemma chain_Nil [simp]: "chain p [] = p"
  by (cases p; cases "fst p") auto

lemma setHasHydrated_fields [simp]:
  "options (setHasHydrated b s) = options s"
  "persistentStorage (setHasHydrated b s) = persistentStorage s"
  "initialState (setHasHydrated b s) = initialState s"
  "initialStateFromPersistentStorage (setHasHydrated b s) = initialStateFromPersistentStorage s"
  "hydrationListeners (setHasHydrated b s) = hydrationListeners s"
  "finishHydrationListeners (setHasHydrated b s) = finishHydrationListeners s"
  "mem (setHasHydrated b s) = mem s"
  "console (setHasHydrated b s) = console s"
  "deferred (setHasHydrated b s) = deferred s"
  "env (setHasHydrated b s) = env s"
  "hasHydrated (setHasHydrated b s) = b"
  "flagLog (setHasHydrated b s) = flagLog s @ [b]"
  by (simp_all add: setHasHydrated_def)

lemma beginHydration_keeps:
  assumes "\<And>s u. g (s\<lparr>env := u\<rparr>) = g s"
  shows "g (snd (beginHydration s)) = g (setHasHydrated False s)"
  by (simp add: beginHydration_def Let_def andThen_alt return_def parentGet_def
      emit_keeps [of g, OF assms] user_keeps [of g, OF assms] split: sum.split option.split)

lemma beginHydration_resets:
  "flagLog (snd (beginHydration s)) = flagLog s @ [False]"
  "hasHydrated (snd (beginHydration s)) = False"
  using beginHydration_keeps [of flagLog s] beginHydration_keeps [of hasHydrated s]
  by simp_all

text \<open>The final handler assigns the flag once, when the callback has returned, and not at
  all when the callback throws.\<close>

lemma finishStage_flag:
  "flagLog (snd (finishStage cb a s))
     = flagLog s @ (case fst (postRehydration cb (initialStateFromPersistentStorage s) Undefined s) of
                      Inl e \<Rightarrow> [] | Inr y \<Rightarrow> [True])"
  "hasHydrated (snd (finishStage cb a s))
     = (case fst (postRehydration cb (initialStateFromPersistentStorage s) Undefined s) of
          Inl e \<Rightarrow> hasHydrated s | Inr y \<Rightarrow> True)"
proof -
  let ?called = "postRehydration cb (initialStateFromPersistentStorage s) Undefined s"
  have called: "flagLog (snd ?called) = flagLog s" "hasHydrated (snd ?called) = hasHydrated s"
    using postRehydration_keeps [of flagLog] postRehydration_keeps [of hasHydrated]
    by simp_all
  have emitted: "flagLog (snd (emit fs v t)) = flagLog t" "hasHydrated (snd (emit fs v t)) = hasHydrated t"
    for fs v and t :: "'a middleware"
    using emit_keeps [of flagLog] emit_keeps [of hasHydrated]
    by simp_all
  show "flagLog (snd (finishStage cb a s))
     = flagLog s @ (case fst ?called of Inl e \<Rightarrow> [] | Inr y \<Rightarrow> [True])"
    by (simp add: finishStage_def andThen_alt return_def called emitted split: sum.split)
  show "hasHydrated (snd (finishStage cb a s))
     = (case fst ?called of Inl e \<Rightarrow> hasHydrated s | Inr y \<Rightarrow> True)"
    by (simp add: finishStage_def andThen_alt return_def called emitted split: sum.split)
qed

lemma hydrate_alt:
  "hydrate s =
     (case fst (beginHydration s) of
        Inl e \<Rightarrow> (Inl e, snd (beginHydration s))
      | Inr cb \<Rightarrow>
          chain
            (chain
               (chain (thenablify persistentStorageGetItem False Undefined (snd (beginHydration s)))
                  [Then deserializeStage, Then versionStage, Then mergeStage])
               [Then (finishStage cb)])
            [Catch (failStage cb)])"
proof -
  have "hydrationChain cb
      = ([Then deserializeStage, Then versionStage, Then mergeStage] @ [Then (finishStage cb)])
        @ [Catch (failStage cb)]" for cb :: "'a callback option"
    by (simp add: hydrationChain_def)
  then show ?thesis
    by (simp only: hydrate_def andThen_alt chain_append)
qed

text \<open>The chain up to the merge handler does not assign the flag.\<close>

lemma chain_before_finish_keeps_flag:
  fixes s :: "'u middleware"
  defines "p \<equiv> chain (thenablify persistentStorageGetItem False Undefined s)
      [Then deserializeStage, Then versionStage, Then mergeStage]"
  shows "flagLog (snd p) = flagLog s \<and> hasHydrated (snd p) = hasHydrated s"
proof -
  have keeps: "g (snd p) = g s"
    if "\<And>s u. g (s\<lparr>env := u\<rparr>) = g s" "\<And>s. g (s\<lparr>deferred := Suc (deferred s)\<rparr>) = g s"
      "\<And>s c. g (s\<lparr>console := c\<rparr>) = g s" "\<And>s m. g (s\<lparr>mem := m\<rparr>) = g s"
      "\<And>s m. g (s\<lparr>initialStateFromPersistentStorage := m\<rparr>) = g s"
    for g :: "'u middleware \<Rightarrow> 'x"
  proof -
    have "g (snd p) = g (snd (thenablify persistentStorageGetItem False Undefined s))"
      unfolding p_def
      using that deserializeStage_keeps [of g] versionStage_keeps [of g] mergeStage_keeps [of g]
      by (intro chain_keeps) auto
    then show ?thesis
      using storage_calls_keep(1) [of g] that(1) by (simp add: thenablify_state)
  qed
  show ?thesis
    using keeps [of flagLog] keeps [of hasHydrated] by simp
qed

text \<open>
  C7. Every call of \<^verbatim>\<open>hydrate\<close> first assigns \<^verbatim>\<open>false\<close> to \<^verbatim>\<open>hasHydrated\<close>. When the
  statements before the chain return, the chain up to the merge handler ends in a
  thenable that holds a value, and the callback called by the final handler returns, the
  call assigns \<^verbatim>\<open>true\<close> once after that and nothing else, and the flag is true on return.
  In every other call (a listener or \<^verbatim>\<open>onRehydrateStorage\<close> throws, a handler up to the merge
  handler fails, the chain is left to a promise, or the callback throws) the reset is the
  only assignment and the flag is false on return.
\<close>

theorem hydrate_resets_flag_then_sets_it_once_on_success:
  "if \<exists>cb s1 throwImmediately merged s3 y s4.
        beginHydration s = (Inr cb, s1)
      \<and> chain (thenablify persistentStorageGetItem False Undefined s1)
          [Then deserializeStage, Then versionStage, Then mergeStage]
          = (Inr (Fulfilled throwImmediately merged), s3)
      \<and> postRehydration cb (initialStateFromPersistentStorage s3) Undefined s3 = (Inr y, s4)
   then flagLog (snd (hydrate s)) = flagLog s @ [False, True] \<and> hasHydrated (snd (hydrate s))
   else flagLog (snd (hydrate s)) = flagLog s @ [False] \<and> \<not> hasHydrated (snd (hydrate s))"
proof -
  let ?prefix = "\<lambda>s1. chain (thenablify persistentStorageGetItem False Undefined s1)
      [Then deserializeStage, Then versionStage, Then mergeStage]"
  let ?reached = "\<exists>cb s1 throwImmediately merged s3 y s4.
        beginHydration s = (Inr cb, s1)
      \<and> ?prefix s1 = (Inr (Fulfilled throwImmediately merged), s3)
      \<and> postRehydration cb (initialStateFromPersistentStorage s3) Undefined s3 = (Inr y, s4)"
  obtain b s1 where started: "beginHydration s = (b, s1)"
    by (cases "beginHydration s")
  have reset: "flagLog s1 = flagLog s @ [False]" "\<not> hasHydrated s1"
    using beginHydration_resets [of s] started by simp_all
  have outcome: "if ?reached
      then flagLog (snd (hydrate s)) = flagLog s @ [False, True] \<and> hasHydrated (snd (hydrate s))
      else flagLog (snd (hydrate s)) = flagLog s @ [False] \<and> \<not> hasHydrated (snd (hydrate s))"
  proof (cases b)
    case (Inl e)
    have "hydrate s = (Inl e, s1)"
      using started Inl by (simp add: hydrate_alt)
    moreover have "\<not> ?reached"
      using started Inl by simp
    ultimately show ?thesis
      using reset by simp
  next
    case (Inr cb)
    obtain r t where prefix: "?prefix s1 = (r, t)"
      by (cases "?prefix s1")
    obtain outcome t' where called:
      "postRehydration cb (initialStateFromPersistentStorage t) Undefined t = (outcome, t')"
      by (cases "postRehydration cb (initialStateFromPersistentStorage t) Undefined t")
    have before: "flagLog t = flagLog s @ [False]" "\<not> hasHydrated t"
      using chain_before_finish_keeps_flag [of s1] prefix reset by simp_all
    have result: "hydrate s = chain (chain (r, t) [Then (finishStage cb)]) [Catch (failStage cb)]"
      using started Inr prefix by (simp add: hydrate_alt)
    have after: "flagLog (snd (chain q [Catch (failStage cb)])) = flagLog (snd q)"
      "hasHydrated (snd (chain q [Catch (failStage cb)])) = hasHydrated (snd q)" for q
      using failStage_keeps [of flagLog cb] failStage_keeps [of hasHydrated cb]
      by (auto intro!: chain_keeps)
    have reached: "?reached \<longleftrightarrow> (\<exists>ti x. r = Inr (Fulfilled ti x)) \<and> (\<exists>y. outcome = Inr y)"
      using started Inr prefix called by auto
    show ?thesis
    proof (cases "(\<exists>ti x. r = Inr (Fulfilled ti x)) \<and> (\<exists>y. outcome = Inr y)")
      case True
      then obtain ti x y where fulfilled: "r = Inr (Fulfilled ti x)" and returned: "outcome = Inr y"
        by blast
      have "flagLog (snd (chain (r, t) [Then (finishStage cb)])) = flagLog t @ [True]"
        "hasHydrated (snd (chain (r, t) [Then (finishStage cb)]))"
        using fulfilled returned called finishStage_flag [of cb x t]
        by (simp_all add: thenablify_state)
      then show ?thesis
        using True reached result after before by simp
    next
      case False
      have "flagLog (snd (chain (r, t) [Then (finishStage cb)])) = flagLog t
          \<and> hasHydrated (snd (chain (r, t) [Then (finishStage cb)])) = hasHydrated t"
      proof (cases r)
        case (Inl e)
        then show ?thesis by simp
      next
        case (Inr v)
        show ?thesis
        proof (cases "\<exists>ti x. v = Fulfilled ti x")
          case True
          then obtain ti x where v: "v = Fulfilled ti x" by blast
          with False Inr obtain e where "outcome = Inl e"
            by (cases outcome) auto
          then show ?thesis
            using Inr v called finishStage_flag [of cb x t]
            by (simp add: thenablify_state)
        next
          case False
          then show ?thesis
            using Inr by (cases v) simp_all
        qed
      qed
      then show ?thesis
        using False reached result after before by simp
    qed
  qed
  then show ?thesis .
qed

text \<open>A pass over a saved entry makes the one transition; a pass whose \<^verbatim>\<open>deserialize\<close>
  throws makes none.\<close>

theorem hydrate_resets_flag_then_sets_it_once_on_success_witness:
  "flagLog (snd (hydrate savedStore)) = flagLog savedStore @ [False, True]
   \<and> hasHydrated (snd (hydrate savedStore))
   \<and> flagLog (snd (hydrate corruptedStore)) = flagLog corruptedStore @ [False]
   \<and> \<not> hasHydrated (snd (hydrate corruptedStore))"
proof -
  have reached: "\<exists>cb s1 throwImmediately merged s3 y s4.
        beginHydration savedStore = (Inr cb, s1)
      \<and> chain (thenablify persistentStorageGetItem False Undefined s1)
          [Then deserializeStage, Then versionStage, Then mergeStage]
          = (Inr (Fulfilled throwImmediately merged), s3)
      \<and> postRehydration cb (initialStateFromPersistentStorage s3) Undefined s3 = (Inr y, s4)"
    by (auto simp add: stage_defs call_defs world_defs)
  have failed: "\<not> (\<exists>cb s1 throwImmediately merged s3 y s4.
        beginHydration corruptedStore = (Inr cb, s1)
      \<and> chain (thenablify persistentStorageGetItem False Undefined s1)
          [Then deserializeStage, Then versionStage, Then mergeStage]
          = (Inr (Fulfilled throwImmediately merged), s3)
      \<and> postRehydration cb (initialStateFromPersistentStorage s3) Undefined s3 = (Inr y, s4))"
    by (simp add: stage_defs call_defs world_defs)
  show ?thesis
    using hydrate_resets_flag_then_sets_it_once_on_success [of savedStore] reached
      hydrate_resets_flag_then_sets_it_once_on_success [of corruptedStore] failed
    by simp
qed

text \<open>A pass whose \<^verbatim>\<open>deserialize\<close> throws: the flag was true, is reset, and is not assigned
  again; the call returns with the flag false.\<close>

theorem hydrate_failed_pass_counterexample:
  "hasHydrated corruptedStore
   \<and> fst (hydrate corruptedStore) = Inr (Fulfilled False Undefined)
   \<and> flagLog (snd (hydrate corruptedStore)) = flagLog corruptedStore @ [False]
   \<and> \<not> hasHydrated (snd (hydrate corruptedStore))"
  by (simp add: stage_defs call_defs world_defs)


section \<open>Synchronous hydration\<close>

text \<open>The caller's functions change the caller's environment only.\<close>

lemma user_fields [simp]:
  "options (snd (user f s)) = options s"
  "persistentStorage (snd (user f s)) = persistentStorage s"
  "initialState (snd (user f s)) = initialState s"
  "initialStateFromPersistentStorage (snd (user f s)) = initialStateFromPersistentStorage s"
  "hasHydrated (snd (user f s)) = hasHydrated s"
  "hydrationListeners (snd (user f s)) = hydrationListeners s"
  "finishHydrationListeners (snd (user f s)) = finishHydrationListeners s"
  "mem (snd (user f s)) = mem s"
  "console (snd (user f s)) = console s"
  "flagLog (snd (user f s)) = flagLog s"
  "deferred (snd (user f s)) = deferred s"
  by (simp_all add: user_keeps)

lemma emit_fields [simp]:
  "options (snd (emit fs a s)) = options s"
  "persistentStorage (snd (emit fs a s)) = persistentStorage s"
  "initialState (snd (emit fs a s)) = initialState s"
  "initialStateFromPersistentStorage (snd (emit fs a s)) = initialStateFromPersistentStorage s"
  "hasHydrated (snd (emit fs a s)) = hasHydrated s"
  "hydrationListeners (snd (emit fs a s)) = hydrationListeners s"
  "finishHydrationListeners (snd (emit fs a s)) = finishHydrationListeners s"
  "mem (snd (emit fs a s)) = mem s"
  "console (snd (emit fs a s)) = console s"
  "flagLog (snd (emit fs a s)) = flagLog s"
  "deferred (snd (emit fs a s)) = deferred s"
  by (simp_all add: emit_keeps)

lemma getItem_fields [simp]:
  "options (snd (persistentStorageGetItem a s)) = options s"
  "persistentStorage (snd (persistentStorageGetItem a s)) = persistentStorage s"
  "initialState (snd (persistentStorageGetItem a s)) = initialState s"
  "initialStateFromPersistentStorage (snd (persistentStorageGetItem a s)) = initialStateFromPersistentStorage s"
  "hasHydrated (snd (persistentStorageGetItem a s)) = hasHydrated s"
  "hydrationListeners (snd (persistentStorageGetItem a s)) = hydrationListeners s"
  "finishHydrationListeners (snd (persistentStorageGetItem a s)) = finishHydrationListeners s"
  "mem (snd (persistentStorageGetItem a s)) = mem s"
  "console (snd (persistentStorageGetItem a s)) = console s"
  "flagLog (snd (persistentStorageGetItem a s)) = flagLog s"
  "deferred (snd (persistentStorageGetItem a s)) = deferred s"
  by (simp_all add: storage_calls_keep)

lemma setItem_fields [simp]:
  "options (snd (persistentStorageSetItem a s)) = options s"
  "persistentStorage (snd (persistentStorageSetItem a s)) = persistentStorage s"
  "initialState (snd (persistentStorageSetItem a s)) = initialState s"
  "initialStateFromPersistentStorage (snd (persistentStorageSetItem a s)) = initialStateFromPersistentStorage s"
  "hasHydrated (snd (persistentStorageSetItem a s)) = hasHydrated s"
  "hydrationListeners (snd (persistentStorageSetItem a s)) = hydrationListeners s"
  "finishHydrationListeners (snd (persistentStorageSetItem a s)) = finishHydrationListeners s"
  "mem (snd (persistentStorageSetItem a s)) = mem s"
  "console (snd (persistentStorageSetItem a s)) = console s"
  "flagLog (snd (persistentStorageSetItem a s)) = flagLog s"
  "deferred (snd (persistentStorageSetItem a s)) = deferred s"
  by (simp_all add: storage_calls_keep)

lemma deserializeStage_fields [simp]:
  "options (snd (deserializeStage a s)) = options s"
  "persistentStorage (snd (deserializeStage a s)) = persistentStorage s"
  "initialState (snd (deserializeStage a s)) = initialState s"
  "initialStateFromPersistentStorage (snd (deserializeStage a s)) = initialStateFromPersistentStorage s"
  "hasHydrated (snd (deserializeStage a s)) = hasHydrated s"
  "hydrationListeners (snd (deserializeStage a s)) = hydrationListeners s"
  "finishHydrationListeners (snd (deserializeStage a s)) = finishHydrationListeners s"
  "mem (snd (deserializeStage a s)) = mem s"
  "console (snd (deserializeStage a s)) = console s"
  "flagLog (snd (deserializeStage a s)) = flagLog s"
  "deferred (snd (deserializeStage a s)) = deferred s"
  by (simp_all add: deserializeStage_keeps)

lemma failStage_fields [simp]:
  "options (snd (failStage cb a s)) = options s"
  "persistentStorage (snd (failStage cb a s)) = persistentStorage s"
  "initialState (snd (failStage cb a s)) = initialState s"
  "initialStateFromPersistentStorage (snd (failStage cb a s)) = initialStateFromPersistentStorage s"
  "hasHydrated (snd (failStage cb a s)) = hasHydrated s"
  "hydrationListeners (snd (failStage cb a s)) = hydrationListeners s"
  "finishHydrationListeners (snd (failStage cb a s)) = finishHydrationListeners s"
  "mem (snd (failStage cb a s)) = mem s"
  "console (snd (failStage cb a s)) = console s"
  "flagLog (snd (failStage cb a s)) = flagLog s"
  "deferred (snd (failStage cb a s)) = deferred s"
  by (simp_all add: failStage_keeps)

lemma postRehydration_fields [simp]:
  "options (snd (postRehydration cb st err s)) = options s"
  "persistentStorage (snd (postRehydration cb st err s)) = persistentStorage s"
  "initialState (snd (postRehydration cb st err s)) = initialState s"
  "initialStateFromPersistentStorage (snd (postRehydration cb st err s)) = initialStateFromPersistentStorage s"
  "hasHydrated (snd (postRehydration cb st err s)) = hasHydrated s"
  "hydrationListeners (snd (postRehydration cb st err s)) = hydrationListeners s"
  "finishHydrationListeners (snd (postRehydration cb st err s)) = finishHydrationListeners s"
  "mem (snd (postRehydration cb st err s)) = mem s"
  "console (snd (postRehydration cb st err s)) = console s"
  "flagLog (snd (postRehydration cb st err s)) = flagLog s"
  "deferred (snd (postRehydration cb st err s)) = deferred s"
  by (simp_all add: postRehydration_keeps)







lemma versionStage_fields [simp]:
  "options (snd (versionStage a s)) = options s"
  "persistentStorage (snd (versionStage a s)) = persistentStorage s"
  "initialState (snd (versionStage a s)) = initialState s"
  "initialStateFromPersistentStorage (snd (versionStage a s)) = initialStateFromPersistentStorage s"
  "hasHydrated (snd (versionStage a s)) = hasHydrated s"
  "hydrationListeners (snd (versionStage a s)) = hydrationListeners s"
  "finishHydrationListeners (snd (versionStage a s)) = finishHydrationListeners s"
  "mem (snd (versionStage a s)) = mem s"
  "flagLog (snd (versionStage a s)) = flagLog s"
  "deferred (snd (versionStage a s)) = deferred s"
  by (simp_all add: versionStage_keeps)

lemma finishStage_fields [simp]:
  "options (snd (finishStage cb a s)) = options s"
  "persistentStorage (snd (finishStage cb a s)) = persistentStorage s"
  "initialState (snd (finishStage cb a s)) = initialState s"
  "initialStateFromPersistentStorage (snd (finishStage cb a s)) = initialStateFromPersistentStorage s"
  "hydrationListeners (snd (finishStage cb a s)) = hydrationListeners s"
  "finishHydrationListeners (snd (finishStage cb a s)) = finishHydrationListeners s"
  "mem (snd (finishStage cb a s)) = mem s"
  "console (snd (finishStage cb a s)) = console s"
  "deferred (snd (finishStage cb a s)) = deferred s"
  by (simp_all add: finishStage_keeps)

lemma mergeStage_fields [simp]:
  "options (snd (mergeStage a s)) = options s"
  "persistentStorage (snd (mergeStage a s)) = persistentStorage s"
  "initialState (snd (mergeStage a s)) = initialState s"
  "hasHydrated (snd (mergeStage a s)) = hasHydrated s"
  "hydrationListeners (snd (mergeStage a s)) = hydrationListeners s"
  "finishHydrationListeners (snd (mergeStage a s)) = finishHydrationListeners s"
  "console (snd (mergeStage a s)) = console s"
  "flagLog (snd (mergeStage a s)) = flagLog s"
  by (simp_all add: mergeStage_keeps)

lemma updatePersistentStorage_fields [simp]:
  "options (snd (updatePersistentStorage s)) = options s"
  "persistentStorage (snd (updatePersistentStorage s)) = persistentStorage s"
  "initialState (snd (updatePersistentStorage s)) = initialState s"
  "initialStateFromPersistentStorage (snd (updatePersistentStorage s)) = initialStateFromPersistentStorage s"
  "hasHydrated (snd (updatePersistentStorage s)) = hasHydrated s"
  "hydrationListeners (snd (updatePersistentStorage s)) = hydrationListeners s"
  "finishHydrationListeners (snd (updatePersistentStorage s)) = finishHydrationListeners s"
  "mem (snd (updatePersistentStorage s)) = mem s"
  "console (snd (updatePersistentStorage s)) = console s"
  "flagLog (snd (updatePersistentStorage s)) = flagLog s"
  by (simp_all add: updatePersistentStorage_keeps)

lemma beginHydration_fields [simp]:
  "options (snd (beginHydration s)) = options s"
  "persistentStorage (snd (beginHydration s)) = persistentStorage s"
  "initialState (snd (beginHydration s)) = initialState s"
  "initialStateFromPersistentStorage (snd (beginHydration s)) = initialStateFromPersistentStorage s"
  "hydrationListeners (snd (beginHydration s)) = hydrationListeners s"
  "finishHydrationListeners (snd (beginHydration s)) = finishHydrationListeners s"
  "mem (snd (beginHydration s)) = mem s"
  "console (snd (beginHydration s)) = console s"
  "deferred (snd (beginHydration s)) = deferred s"
  by (simp_all add: beginHydration_keeps)











lemma counterOptions_fields [simp]:
  "name counterOptions = ''counter''"
  "serialize counterOptions = plainSerialize"
  "deserialize counterOptions = plainDeserialize"
  "migrate counterOptions = None"
  "version counterOptions = NumV 0"
  "merge counterOptions = defaultMerge"
  "onRehydrateStorage counterOptions = None"
  "getStorage counterOptions = Some memoryStorageOnce"
  by (simp_all add: counterOptions_def counterDefaults_def counterSettings_def spreadOptions_def
      defaultOptions_def)




section \<open>Version resolution\<close>

lemma assign_nothing [simp]: "assign kvs [] = kvs"
  by (simp add: assign_def)






section \<open>Hydration from an empty storage\<close>

text \<open>Under the default merge the merge handler replaces the state of the store by the
  persisted state laid over \<^verbatim>\<open>initialState\<close>, the value the initializer returned; the state
  the store has at that moment is not read.\<close>

lemma mergeStage_default_mem:
  assumes "merge (options s) = defaultMerge"
  shows "mem (snd (mergeStage a s)) = ObjV (assign (spread (initialState s)) (spread a))"
  using assms
  by (simp add: mergeStage_def andThen_alt user_def defaultMerge_def parentSet_def)

text \<open>The store with the default options but for the name: built by \<^verbatim>\<open>persistImpl\<close> over
  an empty storage, its state set to \<^verbatim>\<open>{count: 5}\<close>, its entry removed from the storage.\<close>

lemma defaultStoreSet_reached:
  "persistImpl counterDefaults counterInitializer [OptName ''counter''] plainStore blankStore
     = (Inr (ObjV [(''count'', NumV 0)]),
        Some (persistSet parentSet, plainStore(''setState'' := Some (persistSet parentSet))),
        defaultStoreSet\<lparr>mem := ObjV [(''count'', NumV 0)],
          env := emptyWorld\<lparr>resolutions := 1,
            items := [(''counter'', StrV (jsonStringify
              (ObjV [(''state'', ObjV [(''count'', NumV 0)]), (''version'', NumV 0)])))]\<rparr>\<rparr>)"
  "snd (persistentStorageRemoveItem Undefined
     (snd (persistSet parentSet (ObjV [(''count'', NumV 5)]) False
        (defaultStoreSet\<lparr>mem := ObjV [(''count'', NumV 0)],
          env := emptyWorld\<lparr>resolutions := 1,
            items := [(''counter'', StrV (jsonStringify
              (ObjV [(''state'', ObjV [(''count'', NumV 0)]), (''version'', NumV 0)])))]\<rparr>\<rparr>))))
     = defaultStoreSet"
proof -
  show "persistImpl counterDefaults counterInitializer [OptName ''counter''] plainStore blankStore
     = (Inr (ObjV [(''count'', NumV 0)]),
        Some (persistSet parentSet, plainStore(''setState'' := Some (persistSet parentSet))),
        defaultStoreSet\<lparr>mem := ObjV [(''count'', NumV 0)],
          env := emptyWorld\<lparr>resolutions := 1,
            items := [(''counter'', StrV (jsonStringify
              (ObjV [(''state'', ObjV [(''count'', NumV 0)]), (''version'', NumV 0)])))]\<rparr>\<rparr>)"
    by (simp add: persistImpl_def persistWiring_def tryElse_def Let_def update_def
        stage_defs call_defs world_defs)
  show "snd (persistentStorageRemoveItem Undefined
     (snd (persistSet parentSet (ObjV [(''count'', NumV 5)]) False
        (defaultStoreSet\<lparr>mem := ObjV [(''count'', NumV 0)],
          env := emptyWorld\<lparr>resolutions := 1,
            items := [(''counter'', StrV (jsonStringify
              (ObjV [(''state'', ObjV [(''count'', NumV 0)]), (''version'', NumV 0)])))]\<rparr>\<rparr>))))
     = defaultStoreSet"
    by (simp add: persistSet_def stage_defs call_defs world_defs)
qed

text \<open>
  C8. A store is built with the default options but for the name (so version 0, the
  default merge, no \<^verbatim>\<open>migrate\<close>, no callback) over a synchronous storage with no entry, from
  the initial state \<^verbatim>\<open>{count: 0}\<close>; then \<^verbatim>\<open>setState({count: 5})\<close> and \<^verbatim>\<open>clearStorage()\<close> are
  called, so that the storage has no entry under the name again and the state of the
  store is \<^verbatim>\<open>{count: 5}\<close>. The call of \<^verbatim>\<open>rehydrate()\<close> that follows returns a fulfilled
  thenable with \<^verbatim>\<open>hasHydrated\<close> true, but the state of the store after it is \<^verbatim>\<open>{count: 0}\<close>,
  not the \<^verbatim>\<open>{count: 5}\<close> it was before the call, and the storage holds the serialized
  \<^verbatim>\<open>{state: {count: 0}, version: 0}\<close>: \<^verbatim>\<open>hydrate\<close> hands \<^verbatim>\<open>merge\<close> the initial state where the
  description of \<^verbatim>\<open>merge\<close> says the current state.
\<close>

theorem empty_storage_rehydrate_resets_state:
  "(case persistImpl counterDefaults counterInitializer [OptName ''counter''] plainStore
          blankStore of
      (r, Some (setter, store), built) \<Rightarrow>
        (let changed = snd (callSetter (store ''setState'') (ObjV [(''count'', NumV 5)]) False built);
             cleared = snd (persistentStorageRemoveItem Undefined changed);
             rehydrated = hydrate cleared
         in (version (options cleared), items (env cleared), mem cleared,
             fst rehydrated, hasHydrated (snd rehydrated), mem (snd rehydrated),
             items (env (snd rehydrated))))
    | (r, None, built) \<Rightarrow> (Undefined, [], Undefined, r, False, Undefined, []))
   = (NumV 0, [], ObjV [(''count'', NumV 5)],
      Inr (Fulfilled True Undefined), True, ObjV [(''count'', NumV 0)],
      [(''counter'', StrV (jsonStringify
         (ObjV [(''state'', ObjV [(''count'', NumV 0)]), (''version'', NumV 0)])))])"
proof -
  have rehydrated: "fst (hydrate defaultStoreSet) = Inr (Fulfilled True Undefined)"
    "hasHydrated (snd (hydrate defaultStoreSet))"
    "mem (snd (hydrate defaultStoreSet)) = ObjV [(''count'', NumV 0)]"
    "items (env (snd (hydrate defaultStoreSet)))
       = [(''counter'', StrV (jsonStringify
            (ObjV [(''state'', ObjV [(''count'', NumV 0)]), (''version'', NumV 0)])))]"
    by (simp_all add: stage_defs call_defs world_defs defaultStoreSet_def)
  have before: "version (options defaultStoreSet) = NumV 0" "items (env defaultStoreSet) = []"
    "mem defaultStoreSet = ObjV [(''count'', NumV 5)]"
    by (simp_all add: world_defs defaultStoreSet_def)
  have handle: "callSetter ((plainStore(''setState'' := Some (persistSet parentSet))) ''setState'')
      = persistSet parentSet"
    by (simp add: fun_eq_iff)
  show ?thesis
    by (simp only: defaultStoreSet_reached prod.case option.case Let_def handle rehydrated before)
qed

section \<open>The post-hydration callback\<close>

text \<open>
  C4. A pass over a synchronous storage, with a post-hydration callback and a
  post-hydration listener that throws. The merge handler returns the thenable of
  \<^verbatim>\<open>updatePersistentStorage\<close>, which is in throw-immediately mode, so the final handler
  runs in that mode: the callback is called with the merged state, the flag is set, the
  listener's throw leaves \<^verbatim>\<open>hydrate\<close>, and the callback is never called with the error.
\<close>

theorem final_stage_throw_escapes:
  "fst (hydrate watchedStore) = Inl (ErrV ''listener failed'')
   \<and> calls (env (snd (hydrate watchedStore))) = [(ObjV [(''count'', NumV 0)], Undefined)]
   \<and> hasHydrated (snd (hydrate watchedStore))"
  by (simp add: stage_defs call_defs world_defs)

text \<open>A failure before the final handler does reach the callback: the same callback over
  an entry that does not parse.\<close>

lemma earlier_failure_reaches_callback:
  "hydrate (corruptedStore\<lparr>options := (options corruptedStore)
       \<lparr>onRehydrateStorage := Some (\<lambda>st u. (Inr (Some recordCall), u))\<rparr>\<rparr>)
     = (Inr (Fulfilled False Undefined),
        corruptedStore\<lparr>options := (options corruptedStore)
            \<lparr>onRehydrateStorage := Some (\<lambda>st u. (Inr (Some recordCall), u))\<rparr>,
          hasHydrated := False, flagLog := [False, True, False],
          env := emptyWorld\<lparr>resolutions := 1, items := [(''counter'', StrV ''{'')],
            calls := [(Undefined, ErrV ''SyntaxError'')]\<rparr>\<rparr>)"
  by (simp add: stage_defs call_defs world_defs)


end
